theory Spec2Isabelle
  imports Complex_Main "HOL-Library.AList"
begin
section \<open>EEGResNet: the residual block and the network constructor\<close>

text \<open>
  A shallow embedding of \<^verbatim>\<open>braindecode/models/eegresnet.py\<close>: the class
  \<^verbatim>\<open>_ResidualBlock\<close> (constructor and \<^verbatim>\<open>forward\<close>) and the constructor of
  \<^verbatim>\<open>EEGResNet\<close> with \<^verbatim>\<open>_weights_init\<close>.

  Python integers are \<open>int\<close>. The float hyperparameters (momentum, epsilon) are only
  stored, never computed with, and are written as the \<open>real\<close> their literal denotes; the
  one float computation, \<^verbatim>\<open>int(1.5 * n_cur_filters)\<close>, is exact for every channel count
  below \<open>2 ^ 52\<close> and is computed in \<open>real\<close>. Every \<^verbatim>\<open>assert\<close> and every raise is a value
  \<open>Inl e\<close> of the result type. What the framework's own constructors check
  (\<^verbatim>\<open>nn.Conv2d\<close>, \<^verbatim>\<open>nn.BatchNorm2d\<close>) is not part of the file and not modelled: they
  record their arguments.
\<close>

subsection \<open>Errors\<close>

datatype error =
    AssertionError "string option"  \<comment> \<open>a failed \<^verbatim>\<open>assert\<close>, with its message if it has one\<close>
  | RuntimeError                    \<comment> \<open>raised by a tensor operation of the framework\<close>

definition bind_err :: "error + 'a \<Rightarrow> ('a \<Rightarrow> error + 'b) \<Rightarrow> error + 'b" where
  "bind_err r f = (case r of Inl e \<Rightarrow> Inl e | Inr v \<Rightarrow> f v)"

subsection \<open>Rank-4 tensors\<close>

text \<open>
  A tensor of rank 4 is its shape \<open>(d0, d1, d2, d3)\<close> (batch, channels, time, width) and
  its entries, read by index. Only the entries inside the shape are meaningful.
\<close>

record 'a tensor =
  d0 :: nat
  d1 :: nat
  d2 :: nat
  d3 :: nat
  entry :: "nat \<Rightarrow> nat \<Rightarrow> nat \<Rightarrow> nat \<Rightarrow> 'a"

text \<open>\<^verbatim>\<open>x.new_zeros(size)\<close>: a size with a negative component raises.\<close>

definition new_zeros :: "int \<times> int \<times> int \<times> int \<Rightarrow> error + ('a::zero) tensor" where
  "new_zeros sz =
     (case sz of (s0, s1, s2, s3) \<Rightarrow>
        if s0 < 0 \<or> s1 < 0 \<or> s2 < 0 \<or> s3 < 0 then Inl RuntimeError
        else Inr \<lparr>d0 = nat s0, d1 = nat s1, d2 = nat s2, d3 = nat s3,
                  entry = (\<lambda>n c h w. 0)\<rparr>)"

text \<open>
  \<^verbatim>\<open>torch.cat(ts, dim=1)\<close>: the tensors must agree on every axis but the channel
  axis; their channels are laid one after the other.
\<close>

definition cat2_dim1 :: "'a tensor \<Rightarrow> 'a tensor \<Rightarrow> error + 'a tensor" where
  "cat2_dim1 a b =
     (if d0 a = d0 b \<and> d2 a = d2 b \<and> d3 a = d3 b
      then Inr \<lparr>d0 = d0 a, d1 = d1 a + d1 b, d2 = d2 a, d3 = d3 a,
                entry = (\<lambda>n c h w. if c < d1 a then entry a n c h w
                                    else entry b n (c - d1 a) h w)\<rparr>
      else Inl RuntimeError)"

fun cat_dim1 :: "'a tensor list \<Rightarrow> error + 'a tensor" where
  "cat_dim1 [] = Inl RuntimeError"
| "cat_dim1 [t] = Inr t"
| "cat_dim1 (t # u # ts) = bind_err (cat2_dim1 t u) (\<lambda>tu. cat_dim1 (tu # ts))"




subsection \<open>Modules\<close>

text \<open>
  The module classes the file instantiates. A parameter tensor (\<open>weight\<close>, \<open>bias\<close>) is
  the list of its values; a convolution built with \<^verbatim>\<open>bias=False\<close> has \<open>bias = None\<close>.
  The activation is a class of the framework, instantiated without arguments.
\<close>

datatype activation = ELU | ReLU | LeakyReLU | GELU | SELU | Tanh | Sigmoid | Hardtanh

datatype modul =
    Ensure4d
  | Rearrange string
  | Conv2d (in_channels: int) (out_channels: int) (kernel_size: "int \<times> int")
      (stride: "int \<times> int") (padding: "int \<times> int") (dilation: "int \<times> int")
      (weight: "real list") (bias: "real list option")
  | BatchNorm2d (num_features: int) (momentum: real) (affine: bool) (eps: real)
      (weight: "real list") (bias: "real list option")
  | Activation activation
  | ResidualBlock (n_pad_chans: int) (conv_1: modul) (bn1: modul) (conv_2: modul)
      (bn2: modul) (nonlinearity: modul)
  | AdaptiveAvgPool2d "int \<times> int"
  | AvgPool2dWithConv "int \<times> int" "int \<times> int" "int \<times> int"
  | Sequential "(string \<times> modul) list"
  | SqueezeFinalOutput

text \<open>
  The framework's constructors. A fresh parameter of a given shape holds the
  framework's default initial values, \<open>dflt shape\<close>: they are left open.
  \<^verbatim>\<open>nn.Conv2d(in, out, kernel_size, stride, padding, dilation, bias)\<close> has a weight
  of shape \<open>[out, in, kh, kw]\<close> and, with \<^verbatim>\<open>bias=True\<close>, a bias of shape \<open>[out]\<close>.
\<close>

definition nn_Conv2d ::
  "(int list \<Rightarrow> real list) \<Rightarrow> int \<Rightarrow> int \<Rightarrow> int \<times> int \<Rightarrow> int \<times> int \<Rightarrow> int \<times> int
     \<Rightarrow> int \<times> int \<Rightarrow> bool \<Rightarrow> modul" where
  "nn_Conv2d dflt c_in c_out ksize strd pad dil with_bias =
     Conv2d c_in c_out ksize strd pad dil
       (dflt [c_out, c_in, fst ksize, snd ksize])
       (if with_bias then Some (dflt [c_out]) else None)"

definition nn_BatchNorm2d ::
  "(int list \<Rightarrow> real list) \<Rightarrow> int \<Rightarrow> real \<Rightarrow> bool \<Rightarrow> real \<Rightarrow> modul" where
  "nn_BatchNorm2d dflt n mom aff e =
     BatchNorm2d n mom aff e (dflt [n]) (Some (dflt [n]))"

subsection \<open>\<^verbatim>\<open>_ResidualBlock.__init__\<close>\<close>

definition ResidualBlock_init ::
  "(int list \<Rightarrow> real list) \<Rightarrow> int \<Rightarrow> int \<Rightarrow> int \<times> int \<Rightarrow> int \<Rightarrow> activation \<Rightarrow> real \<Rightarrow> real
     \<Rightarrow> error + modul" where
  "ResidualBlock_init dflt in_filters out_num_filters dil filter_time_length
       nonlinearity_class batch_norm_alpha batch_norm_epsilon =
     (let time_padding = (filter_time_length - 1) * fst dil in
      if time_padding mod 2 \<noteq> 0 then Inl (AssertionError None)
      else
        let time_padding = time_padding div 2 in
        if (out_num_filters - in_filters) mod 2 \<noteq> 0
        then Inl (AssertionError (Some
          ''Need even number of extra channels in order to be able to pad correctly''))
        else Inr (ResidualBlock (out_num_filters - in_filters)
          (nn_Conv2d dflt in_filters out_num_filters (filter_time_length, 1) (1, 1)
             (time_padding, 0) dil True)
          (nn_BatchNorm2d dflt out_num_filters batch_norm_alpha True batch_norm_epsilon)
          (nn_Conv2d dflt out_num_filters out_num_filters (filter_time_length, 1) (1, 1)
             (time_padding, 0) dil True)
          (nn_BatchNorm2d dflt out_num_filters batch_norm_alpha True batch_norm_epsilon)
          (Activation nonlinearity_class)))"

subsection \<open>\<^verbatim>\<open>_ResidualBlock.forward\<close>\<close>

text \<open>
  What a convolution, a batch normalization and an activation compute on a tensor is the
  framework's: \<open>call m x\<close> stands for \<^verbatim>\<open>m(x)\<close> and may raise.

  \<open>skip_input\<close> is the statement \<^verbatim>\<open>if self.n_pad_chans != 0: ...\<close> of \<^verbatim>\<open>forward\<close>:
  the value of \<^verbatim>\<open>x\<close> after it.
\<close>

definition skip_input :: "modul \<Rightarrow> ('a::zero) tensor \<Rightarrow> error + 'a tensor" where
  "skip_input self x =
     (if n_pad_chans self \<noteq> 0
      then bind_err (new_zeros (int (d0 x), n_pad_chans self div 2, int (d2 x), int (d3 x)))
             (\<lambda>zeros_for_padding. cat_dim1 [zeros_for_padding, x, zeros_for_padding])
      else Inr x)"


subsection \<open>\<^verbatim>\<open>EEGResNet._weights_init\<close> and \<^verbatim>\<open>nn.Module.apply\<close>\<close>

text \<open>\<^verbatim>\<open>module.__class__.__name__\<close>.\<close>

fun activation_name :: "activation \<Rightarrow> string" where
  "activation_name ELU = ''ELU''"
| "activation_name ReLU = ''ReLU''"
| "activation_name LeakyReLU = ''LeakyReLU''"
| "activation_name GELU = ''GELU''"
| "activation_name SELU = ''SELU''"
| "activation_name Tanh = ''Tanh''"
| "activation_name Sigmoid = ''Sigmoid''"
| "activation_name Hardtanh = ''Hardtanh''"

fun class_name :: "modul \<Rightarrow> string" where
  "class_name Ensure4d = ''Ensure4d''"
| "class_name (Rearrange p) = ''Rearrange''"
| "class_name (Conv2d i o' k s p d w b) = ''Conv2d''"
| "class_name (BatchNorm2d n m a e w b) = ''BatchNorm2d''"
| "class_name (Activation a) = activation_name a"
| "class_name (ResidualBlock p c1 b1 c2 b2 nl) = ''_ResidualBlock''"
| "class_name (AdaptiveAvgPool2d sz) = ''AdaptiveAvgPool2d''"
| "class_name (AvgPool2dWithConv k s d) = ''AvgPool2dWithConv''"
| "class_name (Sequential kids) = ''Sequential''"
| "class_name SqueezeFinalOutput = ''SqueezeFinalOutput''"

text \<open>Python's \<^verbatim>\<open>p in s\<close> on strings: \<open>p\<close> occurs in \<open>s\<close> as a contiguous substring.\<close>

fun py_in :: "string \<Rightarrow> string \<Rightarrow> bool" where
  "py_in p [] = (p = [])"
| "py_in p (c # cs) = (take (length p) (c # cs) = p \<or> py_in p cs)"

text \<open>\<^verbatim>\<open>init.constant_(t, val)\<close> fills the tensor with \<open>val\<close>.\<close>

definition init_constant :: "real list \<Rightarrow> real \<Rightarrow> real list" where
  "init_constant t val = map (\<lambda>_. val) t"

text \<open>
  Writing the parameters of a module in place. Only convolutions and batch
  normalizations have the attributes \<^verbatim>\<open>weight\<close> and \<^verbatim>\<open>bias\<close>.
\<close>

fun set_weight :: "real list \<Rightarrow> modul \<Rightarrow> modul" where
  "set_weight w' (Conv2d i o' k s p d w b) = Conv2d i o' k s p d w' b"
| "set_weight w' (BatchNorm2d n m a e w b) = BatchNorm2d n m a e w' b"
| "set_weight w' m = m"

fun set_bias :: "real list option \<Rightarrow> modul \<Rightarrow> modul" where
  "set_bias b' (Conv2d i o' k s p d w b) = Conv2d i o' k s p d w b'"
| "set_bias b' (BatchNorm2d n m a e w b) = BatchNorm2d n m a e w b'"
| "set_bias b' m = m"

text \<open>
  \<^verbatim>\<open>_weights_init(module, conv_weight_init_fn)\<close>. The initializer works in place:
  \<open>conv_weight_init_fn w\<close> is the content of the tensor after the call.
\<close>

definition weights_init :: "modul \<Rightarrow> (real list \<Rightarrow> real list) \<Rightarrow> modul" where
  "weights_init module' conv_weight_init_fn =
     (let classname = class_name module' in
      if py_in ''Conv'' classname \<and> classname \<noteq> ''AvgPool2dWithConv''
      then
        let module' = set_weight (conv_weight_init_fn (weight module')) module' in
        if bias module' \<noteq> None
        then set_bias (map_option (\<lambda>b. init_constant b 0) (bias module')) module'
        else module'
      else if py_in ''BatchNorm'' classname
      then
        let module' = set_weight (init_constant (weight module') 1) module' in
        set_bias (map_option (\<lambda>b. init_constant b 0) (bias module')) module'
      else module')"

text \<open>
  \<^verbatim>\<open>module.apply(fn)\<close>: \<open>fn\<close> on every child, recursively, then on the module
  itself. The children of a residual block are, in this order, \<open>conv_1\<close>, \<open>bn1\<close>,
  \<open>conv_2\<close>, \<open>bn2\<close> and \<open>nonlinearity\<close>.
\<close>

fun apply_fn :: "(modul \<Rightarrow> modul) \<Rightarrow> modul \<Rightarrow> modul" where
  "apply_fn fn (ResidualBlock p c1 b1 c2 b2 nl) =
     fn (ResidualBlock p (apply_fn fn c1) (apply_fn fn b1) (apply_fn fn c2)
           (apply_fn fn b2) (apply_fn fn nl))"
| "apply_fn fn (Sequential kids) =
     fn (Sequential (map (\<lambda>kid. (fst kid, apply_fn fn (snd kid))) kids))"
| "apply_fn fn m = fn m"

subsection \<open>\<^verbatim>\<open>EEGResNet.__init__\<close>\<close>

datatype pool_length = Auto | Length int

text \<open>
  The arguments of the constructor. \<open>n_chans\<close>, \<open>n_outputs\<close> and \<open>n_times\<close> are the
  attributes \<^verbatim>\<open>self.n_chans\<close>, \<^verbatim>\<open>self.n_outputs\<close> and \<^verbatim>\<open>self.n_times\<close> that the
  mixin \<^verbatim>\<open>EEGModuleMixin\<close> provides from the arguments passed on to it.
\<close>

record config =
  n_chans :: int
  n_outputs :: int
  n_times :: "int option"
  final_pool_length :: pool_length
  n_first_filters :: int
  n_layers_per_block :: int
  first_filter_length :: int
  activation :: activation
  split_first_layer :: bool
  batch_norm_alpha :: real
  batch_norm_epsilon :: real
  conv_weight_init_fn :: "real list \<Rightarrow> real list"

text \<open>
  The constructed object: the attributes stored from the arguments, the table
  \<^verbatim>\<open>mapping\<close>, the children in the order of \<^verbatim>\<open>_modules\<close>, and the mode.
\<close>

record eegresnet =
  hparams :: config
  mapping :: "(string \<times> string) list"
  modules :: "(string \<times> modul) list"
  training :: bool

text \<open>
  \<^verbatim>\<open>add_module(name, module)\<close> stores into the ordered dictionary \<^verbatim>\<open>_modules\<close>: a new
  name goes last, a known name keeps its place and gets the new module.
\<close>

definition add_module :: "string \<Rightarrow> modul \<Rightarrow> (string \<times> modul) list \<Rightarrow> (string \<times> modul) list" where
  "add_module name module' ms = AList.update name module' ms"

text \<open>\<^verbatim>\<open>"{:d}".format(n)\<close> for \<open>n \<ge> 0\<close>, and the name of a residual unit.\<close>

definition digit_char :: "nat \<Rightarrow> char" where
  "digit_char d = ''0123456789'' ! d"

fun format_d :: "nat \<Rightarrow> string" where
  "format_d n = (if n < 10 then [digit_char n]
                 else format_d (n div 10) @ [digit_char (n mod 10)])"

declare format_d.simps [simp del]

definition res_name :: "nat \<Rightarrow> nat \<Rightarrow> string" where
  "res_name i_block i_layer = ''res_'' @ format_d i_block @ ''_'' @ format_d i_layer"

text \<open>\<^verbatim>\<open>int(r)\<close> on a float truncates towards zero.\<close>

definition py_int :: "real \<Rightarrow> int" where
  "py_int r = (if 0 \<le> r then \<lfloor>r\<rfloor> else \<lceil>r\<rceil>)"

text \<open>
  The call \<^verbatim>\<open>_ResidualBlock(n_in, n_out, dilation=cur_dilation)\<close>: the other arguments
  take the defaults of the signature (\<^verbatim>\<open>filter_time_length=3\<close>,
  \<^verbatim>\<open>nonlinearity=nn.ELU\<close>, \<^verbatim>\<open>batch_norm_alpha=0.1\<close>, \<^verbatim>\<open>batch_norm_epsilon=1e-4\<close>).
\<close>

definition new_block :: "(int list \<Rightarrow> real list) \<Rightarrow> int \<Rightarrow> int \<Rightarrow> int \<times> int \<Rightarrow> error + modul" where
  "new_block dflt n_in n_out dil = ResidualBlock_init dflt n_in n_out dil 3 ELU (1 / 10) (1 / 10000)"

text \<open>Lines 96 to 138: the layers before the residual units.\<close>

definition first_layers :: "(int list \<Rightarrow> real list) \<Rightarrow> config \<Rightarrow> (string \<times> modul) list" where
  "first_layers dflt cfg =
     (let ms0 = add_module ''ensuredims'' Ensure4d [];
          ms1 =
            (if split_first_layer cfg
             then
               add_module ''conv_spat''
                 (nn_Conv2d dflt (n_first_filters cfg) (n_first_filters cfg)
                    (1, n_chans cfg) (1, 1) (0, 0) (1, 1) False)
                 (add_module ''conv_time''
                    (nn_Conv2d dflt 1 (n_first_filters cfg) (first_filter_length cfg, 1)
                       (1, 1) (first_filter_length cfg div 2, 0) (1, 1) True)
                    (add_module ''dimshuffle'' (Rearrange ''batch C T 1 -> batch 1 T C'') ms0))
             else
               add_module ''conv_time''
                 (nn_Conv2d dflt (n_chans cfg) (n_first_filters cfg) (first_filter_length cfg, 1)
                    (1, 1) (first_filter_length cfg div 2, 0) (1, 1) False)
                 ms0);
          n_filters_conv = n_first_filters cfg;
          ms2 = add_module ''bnorm''
                  (nn_BatchNorm2d dflt n_filters_conv (batch_norm_alpha cfg) True (1 / 100000)) ms1
      in add_module ''conv_nonlin'' (Activation (activation cfg)) ms2)"

text \<open>
  The loop \<^verbatim>\<open>for i_layer in ...: self.add_module("res_{:d}_{:d}".format(i_block, i_layer),
  _ResidualBlock(n_cur_filters, n_cur_filters, dilation=cur_dilation))\<close> over the given
  values of \<^verbatim>\<open>i_layer\<close>.
\<close>

fun add_layers ::
  "(int list \<Rightarrow> real list) \<Rightarrow> nat \<Rightarrow> int \<Rightarrow> int \<times> int \<Rightarrow> nat list \<Rightarrow> (string \<times> modul) list
     \<Rightarrow> error + (string \<times> modul) list" where
  "add_layers dflt i_block n_cur dil [] ms = Inr ms"
| "add_layers dflt i_block n_cur dil (i_layer # rest) ms =
     bind_err (new_block dflt n_cur n_cur dil) (\<lambda>blk.
       add_layers dflt i_block n_cur dil rest (add_module (res_name i_block i_layer) blk ms))"

text \<open>
  The running variables of the constructor while it stacks the residual units.
\<close>

record stack =
  cur_dilation :: "int \<times> int"
  n_cur_filters :: int
  i_block :: nat
  mods :: "(string \<times> modul) list"

text \<open>
  Blocks 2 to 7 repeat one pattern: \<^verbatim>\<open>i_block += 1\<close>, \<^verbatim>\<open>cur_dilation[0] *= 2\<close>, a
  first unit from \<^verbatim>\<open>n_cur_filters\<close> to the new count \<open>grow n_cur_filters\<close>, then the
  units \<^verbatim>\<open>range(1, n_layers_per_block)\<close> at the new count.
\<close>

definition next_block ::
  "(int list \<Rightarrow> real list) \<Rightarrow> int \<Rightarrow> (int \<Rightarrow> int) \<Rightarrow> stack \<Rightarrow> error + stack" where
  "next_block dflt layers grow st =
     (let b = i_block st + 1;
          dil = (fst (cur_dilation st) * 2, snd (cur_dilation st));
          n_out_filters = grow (n_cur_filters st)
      in bind_err (new_block dflt (n_cur_filters st) n_out_filters dil) (\<lambda>blk.
         bind_err (add_layers dflt b n_out_filters dil [1..<nat layers]
                     (add_module (res_name b 0) blk (mods st))) (\<lambda>ms.
         Inr \<lparr>cur_dilation = dil, n_cur_filters = n_out_filters, i_block = b, mods = ms\<rparr>)))"

text \<open>
  Lines 139 to 244. Block 1 is the loop over \<^verbatim>\<open>range(n_layers_per_block)\<close> at dilation
  \<open>(1, 1)\<close>; block 2 grows the count by \<^verbatim>\<open>int(2 * n_cur_filters)\<close>, block 3 by
  \<^verbatim>\<open>int(1.5 * n_cur_filters)\<close>, blocks 4 to 7 keep it.
\<close>

definition res_layers ::
  "(int list \<Rightarrow> real list) \<Rightarrow> config \<Rightarrow> (string \<times> modul) list \<Rightarrow> error + stack" where
  "res_layers dflt cfg ms =
     (let layers = n_layers_per_block cfg;
          n_filters_conv = n_first_filters cfg
      in bind_err (add_layers dflt 1 n_filters_conv (1, 1) [0..<nat layers] ms) (\<lambda>ms1.
         bind_err (next_block dflt layers (\<lambda>n. 2 * n)
                     \<lparr>cur_dilation = (1, 1), n_cur_filters = n_filters_conv, i_block = 1,
                      mods = ms1\<rparr>) (\<lambda>s2.
         bind_err (next_block dflt layers (\<lambda>n. py_int (1.5 * real_of_int n)) s2) (\<lambda>s3.
         bind_err (next_block dflt layers (\<lambda>n. n) s3) (\<lambda>s4.
         bind_err (next_block dflt layers (\<lambda>n. n) s4) (\<lambda>s5.
         bind_err (next_block dflt layers (\<lambda>n. n) s5) (\<lambda>s6.
         next_block dflt layers (\<lambda>n. n) s6)))))))"

text \<open>Lines 246 to 273: the pooling stage and the final layer.\<close>

definition head :: "(int list \<Rightarrow> real list) \<Rightarrow> config \<Rightarrow> stack \<Rightarrow> (string \<times> modul) list" where
  "head dflt cfg st =
     (let ms =
            (case final_pool_length cfg of
               Auto \<Rightarrow> add_module ''mean_pool'' (AdaptiveAvgPool2d (1, 1)) (mods st)
             | Length l \<Rightarrow>
                 let pool_dilation = (fst (cur_dilation st), snd (cur_dilation st)) in
                 add_module ''mean_pool'' (AvgPool2dWithConv (l, 1) (1, 1) pool_dilation)
                   (mods st));
          module' =
            add_module ''squeeze'' SqueezeFinalOutput
              (add_module ''conv_classifier''
                 (nn_Conv2d dflt (n_cur_filters st) (n_outputs cfg) (1, 1) (1, 1) (0, 0) (1, 1)
                    True) [])
      in add_module ''final_layer'' (Sequential module') ms)"

text \<open>
  The constructor: the two assertions of lines 78 to 80, the attributes, the children,
  and \<^verbatim>\<open>self.apply\<close> with \<^verbatim>\<open>_weights_init\<close> on every child. (\<^verbatim>\<open>apply\<close> also visits the
  network itself, whose class name \<open>EEGResNet\<close> matches neither test of
  \<^verbatim>\<open>_weights_init\<close>.) The constructor switches to evaluation mode before the pooling
  stage and ends in training mode.
\<close>

definition EEGResNet_init :: "(int list \<Rightarrow> real list) \<Rightarrow> config \<Rightarrow> error + eegresnet" where
  "EEGResNet_init dflt cfg =
     (if final_pool_length cfg = Auto \<and> n_times cfg = None then Inl (AssertionError None)
      else if first_filter_length cfg mod 2 \<noteq> 1 then Inl (AssertionError None)
      else
        bind_err (res_layers dflt cfg (first_layers dflt cfg)) (\<lambda>st.
        Inr \<lparr>hparams = cfg,
             mapping = [(''conv_classifier.weight'', ''final_layer.conv_classifier.weight''),
                        (''conv_classifier.bias'', ''final_layer.conv_classifier.bias'')],
             modules = map (\<lambda>kid. (fst kid,
                              apply_fn (\<lambda>module'. weights_init module' (conv_weight_init_fn cfg))
                                (snd kid)))
                         (head dflt cfg st),
             training = True\<rparr>))"

subsection \<open>The residual block as the specification words it\<close>

text \<open>
  The skip path in the specification's words: the input itself when the two channel
  counts are equal, otherwise the input between \<open>(n_out - n_in) / 2\<close> all-zero channels
  on each side. \<open>zero_pad_channels k x\<close> is \<open>x\<close> between \<open>k\<close> zero channels on each side.
\<close>

definition zero_pad_channels :: "nat \<Rightarrow> ('a::zero) tensor \<Rightarrow> 'a tensor" where
  "zero_pad_channels k x =
     \<lparr>d0 = d0 x, d1 = k + d1 x + k, d2 = d2 x, d3 = d3 x,
      entry = (\<lambda>n c h w. if k \<le> c \<and> c < k + d1 x then entry x n (c - k) h w else 0)\<rparr>"

definition spec_skip :: "int \<Rightarrow> int \<Rightarrow> ('a::zero) tensor \<Rightarrow> error + 'a tensor" where
  "spec_skip n_in n_out x =
     (if n_out = n_in then Inr x
      else if n_in < n_out then Inr (zero_pad_channels (nat ((n_out - n_in) div 2)) x)
      else Inl RuntimeError)"




subsection \<open>Example inputs\<close>

text \<open>
  A block from 2 to 4 channels at dilation 2 and a block from 4 to 4 channels, as the
  constructor builds them when every fresh parameter is empty; an input of two
  channels; and layers that stand in for the framework's: a convolution checks the
  channel count of its input and returns a constant tensor with its output channel
  count, the other layers return their input.
\<close>

definition example_block :: modul where
  "example_block =
     ResidualBlock 2
       (Conv2d 2 4 (3, 1) (1, 1) (2, 0) (2, 1) [] (Some []))
       (BatchNorm2d 4 (1 / 10) True (1 / 10000) [] (Some []))
       (Conv2d 4 4 (3, 1) (1, 1) (2, 0) (2, 1) [] (Some []))
       (BatchNorm2d 4 (1 / 10) True (1 / 10000) [] (Some []))
       (Activation ELU)"

definition example_block_same :: modul where
  "example_block_same =
     ResidualBlock 0
       (Conv2d 2 2 (3, 1) (1, 1) (1, 0) (1, 1) [] (Some []))
       (BatchNorm2d 2 (1 / 10) True (1 / 10000) [] (Some []))
       (Conv2d 2 2 (3, 1) (1, 1) (1, 0) (1, 1) [] (Some []))
       (BatchNorm2d 2 (1 / 10) True (1 / 10000) [] (Some []))
       (Activation ELU)"

definition example_input :: "int tensor" where
  "example_input = \<lparr>d0 = 1, d1 = 2, d2 = 3, d3 = 1, entry = (\<lambda>n c h w. 1 + int c)\<rparr>"


subsection \<open>The residual units that the constructor asks for\<close>

text \<open>
  The block that \<open>new_block\<close> returns when its checks pass: the kernel length is 3, so
  the temporal padding \<open>(3 - 1) * d div 2\<close> is the temporal dilation \<open>d\<close>.
\<close>

definition mk_block :: "(int list \<Rightarrow> real list) \<Rightarrow> int \<Rightarrow> int \<Rightarrow> int \<times> int \<Rightarrow> modul" where
  "mk_block dflt n_in n_out dil =
     ResidualBlock (n_out - n_in)
       (nn_Conv2d dflt n_in n_out (3, 1) (1, 1) (fst dil, 0) dil True)
       (nn_BatchNorm2d dflt n_out (1 / 10) True (1 / 10000))
       (nn_Conv2d dflt n_out n_out (3, 1) (1, 1) (fst dil, 0) dil True)
       (nn_BatchNorm2d dflt n_out (1 / 10) True (1 / 10000))
       (Activation ELU)"

text \<open>
  A second reading of lines 139 to 244: the calls
  \<^verbatim>\<open>_ResidualBlock(n_in, n_out, dilation=cur_dilation)\<close> of the constructor in the order
  of the source, each with the name of its unit, as \<open>(name, n_in, n_out, dilation)\<close>.
\<close>

definition block_calls :: "config \<Rightarrow> (string \<times> int \<times> int \<times> int \<times> int) list" where
  "block_calls cfg =
     (let layers = nat (n_layers_per_block cfg);
          n1 = n_first_filters cfg;
          n2 = 2 * n1;
          n3 = py_int (1.5 * real_of_int n2)
      in map (\<lambda>i. (res_name 1 i, n1, n1, 1, 1)) [0..<layers]
         @ (res_name 2 0, n1, n2, 2, 1) # map (\<lambda>i. (res_name 2 i, n2, n2, 2, 1)) [1..<layers]
         @ (res_name 3 0, n2, n3, 4, 1) # map (\<lambda>i. (res_name 3 i, n3, n3, 4, 1)) [1..<layers]
         @ (res_name 4 0, n3, n3, 8, 1) # map (\<lambda>i. (res_name 4 i, n3, n3, 8, 1)) [1..<layers]
         @ (res_name 5 0, n3, n3, 16, 1) # map (\<lambda>i. (res_name 5 i, n3, n3, 16, 1)) [1..<layers]
         @ (res_name 6 0, n3, n3, 32, 1) # map (\<lambda>i. (res_name 6 i, n3, n3, 32, 1)) [1..<layers]
         @ (res_name 7 0, n3, n3, 64, 1) # map (\<lambda>i. (res_name 7 i, n3, n3, 64, 1)) [1..<layers])"

text \<open>The value of a decimal numeral, for the proof that \<open>format_d\<close> is injective.\<close>

definition digits_value :: "string \<Rightarrow> nat" where
  "digits_value s = foldl (\<lambda>a c. 10 * a + (of_char c - 48)) 0 s"

text \<open>
  What \<^verbatim>\<open>self.apply(lambda module: self._weights_init(module, conv_weight_init_fn))\<close>
  makes of one child, and the children before that call when the residual units are
  those of \<open>block_calls\<close>: the first layers, the units, the pooling stage at the last
  dilation and the final layer.
\<close>

definition initialized :: "(real list \<Rightarrow> real list) \<Rightarrow> modul \<Rightarrow> modul" where
  "initialized f m = apply_fn (\<lambda>module'. weights_init module' f) m"

definition built_modules :: "(int list \<Rightarrow> real list) \<Rightarrow> config \<Rightarrow> (string \<times> modul) list" where
  "built_modules dflt cfg =
     first_layers dflt cfg
     @ map (\<lambda>(name, n_in, n_out, dil). (name, mk_block dflt n_in n_out dil)) (block_calls cfg)
     @ [(''mean_pool'',
          (case final_pool_length cfg of
             Auto \<Rightarrow> AdaptiveAvgPool2d (1, 1)
           | Length l \<Rightarrow> AvgPool2dWithConv (l, 1) (1, 1) (64, 1))),
        (''final_layer'',
          Sequential
            [(''conv_classifier'',
               nn_Conv2d dflt (3 * n_first_filters cfg) (n_outputs cfg) (1, 1) (1, 1) (0, 0)
                 (1, 1) True),
             (''squeeze'', SqueezeFinalOutput)])]"

text \<open>The error of the check on the channel counts in \<^verbatim>\<open>_ResidualBlock.__init__\<close>.\<close>

abbreviation need_even :: error where
  "need_even \<equiv> AssertionError (Some
     ''Need even number of extra channels in order to be able to pad correctly'')"

subsection \<open>Reading a constructed network\<close>

text \<open>
  The residual units among the children, in order: each with its name, the input
  channel count of its first convolution and the output channel count of its second;
  and each with the dilations of its two convolutions.
\<close>

definition is_residual :: "string \<times> modul \<Rightarrow> bool" where
  "is_residual kid = (class_name (snd kid) = ''_ResidualBlock'')"

definition residual_units :: "eegresnet \<Rightarrow> (string \<times> int \<times> int) list" where
  "residual_units net =
     map (\<lambda>kid. (fst kid, in_channels (conv_1 (snd kid)), out_channels (conv_2 (snd kid))))
       (filter is_residual (modules net))"

definition residual_dilations :: "eegresnet \<Rightarrow> (string \<times> (int \<times> int) \<times> (int \<times> int)) list" where
  "residual_dilations net =
     map (\<lambda>kid. (fst kid, dilation (conv_1 (snd kid)), dilation (conv_2 (snd kid))))
       (filter is_residual (modules net))"

text \<open>
  \<^verbatim>\<open>module.modules()\<close>: a module and, recursively, the modules below it; and all the
  modules below the network.
\<close>

fun all_modules :: "modul \<Rightarrow> modul list" where
  "all_modules (ResidualBlock p c1 b1 c2 b2 nl) =
     ResidualBlock p c1 b1 c2 b2 nl
     # all_modules c1 @ all_modules b1 @ all_modules c2 @ all_modules b2 @ all_modules nl"
| "all_modules (Sequential kids) =
     Sequential kids # concat (map (\<lambda>kid. all_modules (snd kid)) kids)"
| "all_modules m = [m]"

definition net_modules :: "eegresnet \<Rightarrow> modul list" where
  "net_modules net = concat (map (\<lambda>kid. all_modules (snd kid)) (modules net))"

text \<open>
  An example: the default arguments of the constructor with 22 channels, 4 outputs,
  1000 time samples and a final pooling length of 10; a fresh parameter of a shape
  holds the value 1/4 in each of its entries, and the initializer halves every value.
\<close>

definition example_dflt :: "int list \<Rightarrow> real list" where
  "example_dflt shape = replicate (nat (prod_list shape)) (1 / 4)"

definition example_config :: config where
  "example_config =
     \<lparr>n_chans = 22, n_outputs = 4, n_times = Some 1000, final_pool_length = Length 10,
      n_first_filters = 20, n_layers_per_block = 2, first_filter_length = 3,
      activation = ELU, split_first_layer = True, batch_norm_alpha = 1 / 10,
      batch_norm_epsilon = 1 / 10000, conv_weight_init_fn = map (\<lambda>v. v / 2)\<rparr>"

text \<open>The network that the constructor returns for the example.\<close>

definition example_net :: eegresnet where
  "example_net =
     \<lparr>hparams = example_config,
      mapping = [(''conv_classifier.weight'', ''final_layer.conv_classifier.weight''),
                 (''conv_classifier.bias'', ''final_layer.conv_classifier.bias'')],
      modules = map (\<lambda>kid. (fst kid, initialized (conv_weight_init_fn example_config) (snd kid)))
                  (built_modules example_dflt example_config),
      training = True\<rparr>"

text \<open>
  The state of one module after the initialization, as a property: a module that
  \<^verbatim>\<open>_weights_init\<close> takes for a batch normalization has scale 1 and shift 0 everywhere; a
  module that it takes for a convolution has as weight the result of the initializer
  \<open>f\<close> on the fresh weight of its shape, and a bias, if it has one, that is 0 everywhere.
\<close>

definition initialized_ok :: "(int list \<Rightarrow> real list) \<Rightarrow> (real list \<Rightarrow> real list) \<Rightarrow> modul \<Rightarrow> bool" where
  "initialized_ok dflt f m =
     ((py_in ''BatchNorm'' (class_name m) \<longrightarrow>
         (\<forall>v \<in> set (weight m). v = 1) \<and> (\<exists>b. bias m = Some b \<and> (\<forall>v \<in> set b. v = 0)))
      \<and> (py_in ''Conv'' (class_name m) \<and> class_name m \<noteq> ''AvgPool2dWithConv'' \<longrightarrow>
           weight m = f (dflt [out_channels m, in_channels m,
                               fst (kernel_size m), snd (kernel_size m)])
           \<and> (\<forall>b. bias m = Some b \<longrightarrow> (\<forall>v \<in> set b. v = 0))))"

text \<open>
  The sizes that the constructor hands to the framework's constructors: the channel
  counts \<open>n_first_filters\<close> (and its double and triple), \<open>n_chans\<close> and \<open>n_outputs\<close>, and
  the kernel lengths \<open>first_filter_length\<close>, \<open>n_chans\<close> and the pooling length.
  \<^verbatim>\<open>nn.Conv2d\<close> and \<^verbatim>\<open>nn.BatchNorm2d\<close> allocate parameters of these sizes and raise an
  error of their own on a negative one, before the constructor reaches its residual
  units; \<open>nn_Conv2d\<close> and \<open>nn_BatchNorm2d\<close> do not model that. A statement about when
  the constructor fails is therefore made for configurations with positive sizes, where
  the framework's constructors return.
\<close>

definition sizes_positive :: "config \<Rightarrow> bool" where
  "sizes_positive cfg =
     (0 < n_chans cfg \<and> 0 < n_outputs cfg \<and> 0 < n_first_filters cfg
      \<and> 0 < first_filter_length cfg
      \<and> (case final_pool_length cfg of Auto \<Rightarrow> True | Length l \<Rightarrow> 0 < l))"

section \<open>Properties of the residual block\<close>

lemma bind_err_simps [simp]:
  "bind_err (Inl e) f = Inl e"
  "bind_err (Inr v) f = f v"
  by (simp_all add: bind_err_def)

text \<open>What a successful construction of a block has checked, and what it returns.\<close>

lemma ResidualBlock_init_Inr:
  assumes "ResidualBlock_init dflt n_in n_out dil k nl alpha e = Inr blk"
  shows "even ((k - 1) * fst dil)" and "even (n_out - n_in)"
    and "blk = ResidualBlock (n_out - n_in)
          (nn_Conv2d dflt n_in n_out (k, 1) (1, 1) ((k - 1) * fst dil div 2, 0) dil True)
          (nn_BatchNorm2d dflt n_out alpha True e)
          (nn_Conv2d dflt n_out n_out (k, 1) (1, 1) ((k - 1) * fst dil div 2, 0) dil True)
          (nn_BatchNorm2d dflt n_out alpha True e)
          (Activation nl)"
  using assms
  by (auto simp: ResidualBlock_init_def Let_def even_iff_mod_2_eq_zero split: if_splits)

lemma cat_zeros:
  "cat_dim1 [\<lparr>d0 = d0 x, d1 = k, d2 = d2 x, d3 = d3 x, entry = (\<lambda>n c h w. 0)\<rparr>, x,
             \<lparr>d0 = d0 x, d1 = k, d2 = d2 x, d3 = d3 x, entry = (\<lambda>n c h w. 0)\<rparr>]
   = Inr (zero_pad_channels k x)"
  by (auto simp: cat2_dim1_def bind_err_def zero_pad_channels_def fun_eq_iff)

lemma skip_input_spec:
  assumes "ResidualBlock_init dflt n_in n_out dil k nl alpha e = Inr blk"
  shows "skip_input blk x = spec_skip n_in n_out x"
proof -
  have ev: "even (n_out - n_in)" and pad: "n_pad_chans blk = n_out - n_in"
    using ResidualBlock_init_Inr [OF assms] by simp_all
  consider "n_out = n_in" | "n_in < n_out" | "n_out < n_in" by linarith
  then show ?thesis
  proof cases
    case 1
    then show ?thesis by (simp add: skip_input_def spec_skip_def pad)
  next
    case 2
    then have "0 \<le> (n_out - n_in) div 2" by simp
    with 2 show ?thesis
      by (simp add: skip_input_def spec_skip_def pad new_zeros_def cat_zeros
          del: cat_dim1.simps)
  next
    case 3
    then have "(n_out - n_in) div 2 < 0" by simp
    with 3 show ?thesis
      by (simp add: skip_input_def spec_skip_def pad new_zeros_def)
  qed
qed

lemma example_block_init:
  "ResidualBlock_init (\<lambda>s. []) 2 4 (2, 1) 3 ELU (1 / 10) (1 / 10000) = Inr example_block"
  by (simp add: ResidualBlock_init_def example_block_def nn_Conv2d_def nn_BatchNorm2d_def)

lemma example_block_same_init:
  "ResidualBlock_init (\<lambda>s. []) 2 2 (1, 1) 3 ELU (1 / 10) (1 / 10000) = Inr example_block_same"
  by (simp add: ResidualBlock_init_def example_block_same_def nn_Conv2d_def nn_BatchNorm2d_def)



text \<open>
  C2. The skip path of a block built from \<open>n_in\<close> to \<open>n_out\<close> channels, on an input with
  \<open>n_in\<close> channels: when \<open>n_out = n_in\<close> it is the input itself; when
  \<open>n_out = n_in + 2 * j\<close> with \<open>j > 0\<close> it is the input between \<open>j\<close> all-zero channels on
  each side (channels below \<open>j\<close> and from \<open>j + n_in\<close> on are zero, the channels between
  are those of the input), and it has exactly \<open>n_out\<close> channels.
\<close>

theorem skip_path_padding:
  assumes "ResidualBlock_init dflt n_in n_out dil k nl alpha e = Inr blk"
    and "int (d1 x) = n_in"
  shows "(n_out = n_in \<longrightarrow> skip_input blk x = Inr x) \<and>
         (\<forall>j>0. n_out = n_in + 2 * j \<longrightarrow>
            (\<exists>s. skip_input blk x = Inr s \<and> s = zero_pad_channels (nat j) x
               \<and> d0 s = d0 x \<and> int (d1 s) = n_out \<and> d2 s = d2 x \<and> d3 s = d3 x
               \<and> (\<forall>n c h w. entry s n c h w =
                     (if c < nat j then 0
                      else if c < nat j + d1 x then entry x n (c - nat j) h w
                      else 0))))"
proof (intro conjI allI impI)
  assume "n_out = n_in"
  then show "skip_input blk x = Inr x"
    by (simp add: skip_input_spec [OF assms(1)] spec_skip_def)
next
  fix j :: int
  assume j: "0 < j" and out: "n_out = n_in + 2 * j"
  let ?s = "zero_pad_channels (nat j) x"
  have "skip_input blk x = Inr ?s"
    using j out by (simp add: skip_input_spec [OF assms(1)] spec_skip_def)
  moreover have "int (d1 ?s) = n_out"
    using j out assms(2) by (simp add: zero_pad_channels_def)
  moreover have "\<forall>n c h w. entry ?s n c h w =
      (if c < nat j then 0 else if c < nat j + d1 x then entry x n (c - nat j) h w else 0)"
    by (auto simp: zero_pad_channels_def)
  ultimately show "\<exists>s. skip_input blk x = Inr s \<and> s = zero_pad_channels (nat j) x
               \<and> d0 s = d0 x \<and> int (d1 s) = n_out \<and> d2 s = d2 x \<and> d3 s = d3 x
               \<and> (\<forall>n c h w. entry s n c h w =
                     (if c < nat j then 0
                      else if c < nat j + d1 x then entry x n (c - nat j) h w
                      else 0))"
    by (simp add: zero_pad_channels_def)
qed

theorem skip_path_padding_witness:
  "ResidualBlock_init (\<lambda>s. []) 2 2 (1, 1) 3 ELU (1 / 10) (1 / 10000) = Inr example_block_same
   \<and> skip_input example_block_same example_input = Inr example_input
   \<and> ResidualBlock_init (\<lambda>s. []) 2 4 (2, 1) 3 ELU (1 / 10) (1 / 10000) = Inr example_block
   \<and> (\<exists>s. skip_input example_block example_input = Inr s
          \<and> d0 s = 1 \<and> d1 s = 4 \<and> d2 s = 3 \<and> d3 s = 1
          \<and> entry s 0 0 0 0 = 0 \<and> entry s 0 1 0 0 = 1 \<and> entry s 0 2 0 0 = 2
          \<and> entry s 0 3 0 0 = 0)"
proof -
  have d: "int (d1 example_input) = 2"
    by (simp add: example_input_def)
  have same: "skip_input example_block_same example_input = Inr example_input"
    using skip_path_padding [OF example_block_same_init d] by simp
  have "\<exists>s. skip_input example_block example_input = Inr s
          \<and> s = zero_pad_channels (nat 1) example_input"
    using skip_path_padding [OF example_block_init d, THEN conjunct2, THEN spec, of 1]
    by auto
  then have "\<exists>s. skip_input example_block example_input = Inr s
          \<and> d0 s = 1 \<and> d1 s = 4 \<and> d2 s = 3 \<and> d3 s = 1
          \<and> entry s 0 0 0 0 = 0 \<and> entry s 0 1 0 0 = 1 \<and> entry s 0 2 0 0 = 2
          \<and> entry s 0 3 0 0 = 0"
    by (auto simp: zero_pad_channels_def example_input_def)
  with same show ?thesis
    using example_block_init example_block_same_init by simp
qed



section \<open>The constructor of EEGResNet, unfolded\<close>

subsection \<open>Names of the units\<close>


lemma digit_char_cases:
  assumes "d < (10::nat)"
  shows "d \<in> {0, 1, 2, 3, 4, 5, 6, 7, 8, 9}"
  using assms by auto

lemma of_char_digit_char: "d < 10 \<Longrightarrow> of_char (digit_char d) = (48 + d :: nat)"
  using digit_char_cases [of d] by (auto simp: digit_char_def)

lemma digit_char_not_underscore: "d < 10 \<Longrightarrow> digit_char d \<noteq> CHR ''_''"
  using digit_char_cases [of d] by (auto simp: digit_char_def)

lemma digits_value_format_d: "digits_value (format_d n) = n"
proof (induction n rule: format_d.induct)
  case (1 n)
  show ?case
  proof (cases "n < 10")
    case True
    then show ?thesis
      by (simp add: format_d.simps [of n] digits_value_def of_char_digit_char)
  next
    case False
    then have "digits_value (format_d (n div 10)) = n div 10"
      using "1.IH" by simp
    with False show ?thesis
      by (simp add: format_d.simps [of n] digits_value_def of_char_digit_char)
  qed
qed

lemma format_d_inj [simp]: "format_d m = format_d n \<longleftrightarrow> m = n"
  by (metis digits_value_format_d)

lemma underscore_notin_format_d [simp]: "CHR ''_'' \<notin> set (format_d n)"
proof (induction n rule: format_d.induct)
  case (1 n)
  show ?case
  proof (cases "n < 10")
    case True
    then show ?thesis
      using digit_char_not_underscore [of n] by (simp add: format_d.simps [of n])
  next
    case False
    then show ?thesis
      using "1.IH" digit_char_not_underscore [of "n mod 10"]
      by (simp add: format_d.simps [of n])
  qed
qed

lemma res_name_inj [simp]: "res_name b i = res_name b' i' \<longleftrightarrow> b = b' \<and> i = i'"
  by (simp add: res_name_def append_Cons_eq_iff)

subsection \<open>A fresh name goes last\<close>

lemma add_module_fresh:
  "name \<notin> fst ` set ms \<Longrightarrow> add_module name m ms = ms @ [(name, m)]"
  unfolding add_module_def by (induction ms) auto

lemma new_block_eq:
  "new_block dflt n_in n_out dil =
     (if even (n_out - n_in) then Inr (mk_block dflt n_in n_out dil)
      else Inl (AssertionError (Some
        ''Need even number of extra channels in order to be able to pad correctly'')))"
  by (simp add: new_block_def ResidualBlock_init_def mk_block_def even_iff_mod_2_eq_zero Let_def)

lemma add_layers_fresh:
  assumes "distinct layer_ids" and "\<forall>i \<in> set layer_ids. res_name b i \<notin> fst ` set ms"
  shows "add_layers dflt b n dil layer_ids ms =
           Inr (ms @ map (\<lambda>i. (res_name b i, mk_block dflt n n dil)) layer_ids)"
  using assms
proof (induction layer_ids arbitrary: ms)
  case Nil
  then show ?case by simp
next
  case (Cons i rest)
  have fresh: "res_name b i \<notin> fst ` set ms" using Cons.prems(2) by simp
  have "\<forall>j \<in> set rest. res_name b j \<notin> fst ` set (ms @ [(res_name b i, mk_block dflt n n dil)])"
    using Cons.prems by auto
  then show ?case
    using Cons.IH [of "ms @ [(res_name b i, mk_block dflt n n dil)]"] Cons.prems(1)
    by (simp add: new_block_eq add_module_fresh [OF fresh])
qed


subsection \<open>The blocks, one after the other\<close>

lemma py_int_of_int [simp]: "py_int (real_of_int k) = k"
  by (simp add: py_int_def)

lemma py_int_grow: "py_int (1.5 * real_of_int (2 * n)) = 3 * n"
proof -
  have "1.5 * real_of_int (2 * n) = real_of_int (3 * n)" by simp
  then show ?thesis by (simp only: py_int_of_int)
qed

lemma py_int_triple: "py_int (3 * real_of_int n) = 3 * n"
proof -
  have "3 * real_of_int n = real_of_int (3 * n)" by simp
  then show ?thesis by (simp only: py_int_of_int)
qed


lemma next_block_fresh:
  assumes "\<forall>i. res_name (i_block st + 1) i \<notin> fst ` set (mods st)"
  shows "next_block dflt layers grow st =
    (if even (grow (n_cur_filters st) - n_cur_filters st)
     then Inr \<lparr>cur_dilation = (fst (cur_dilation st) * 2, snd (cur_dilation st)),
               n_cur_filters = grow (n_cur_filters st),
               i_block = i_block st + 1,
               mods = mods st
                 @ (res_name (i_block st + 1) 0,
                    mk_block dflt (n_cur_filters st) (grow (n_cur_filters st))
                      (fst (cur_dilation st) * 2, snd (cur_dilation st)))
                 # map (\<lambda>i. (res_name (i_block st + 1) i,
                      mk_block dflt (grow (n_cur_filters st)) (grow (n_cur_filters st))
                        (fst (cur_dilation st) * 2, snd (cur_dilation st))))
                     [1..<nat layers]\<rparr>
     else Inl need_even)"
proof (cases "even (grow (n_cur_filters st) - n_cur_filters st)")
  case False
  then show ?thesis by (simp add: next_block_def Let_def new_block_eq)
next
  case True
  let ?b = "i_block st + 1"
  let ?dil = "(fst (cur_dilation st) * 2, snd (cur_dilation st))"
  let ?first = "(res_name ?b 0, mk_block dflt (n_cur_filters st) (grow (n_cur_filters st)) ?dil)"
  have fresh0: "res_name ?b 0 \<notin> fst ` set (mods st)" using assms by blast
  have fresh: "\<forall>i \<in> set [1..<nat layers]. res_name ?b i \<notin> fst ` set (mods st @ [?first])"
    using assms by auto
  have "add_layers dflt ?b (grow (n_cur_filters st)) ?dil [1..<nat layers] (mods st @ [?first])
        = Inr ((mods st @ [?first])
            @ map (\<lambda>i. (res_name ?b i,
                 mk_block dflt (grow (n_cur_filters st)) (grow (n_cur_filters st)) ?dil))
                [1..<nat layers])"
    by (rule add_layers_fresh [OF _ fresh]) simp
  with True fresh0 show ?thesis
    by (simp add: next_block_def Let_def new_block_eq add_module_fresh)
qed


lemma res_name_in_image [simp]: "res_name b i \<in> res_name b' ` S \<longleftrightarrow> b = b' \<and> i \<in> S"
  by auto

lemma names_of_units [simp]:
  "fst ` set (map (\<lambda>i. (res_name b i, f i)) layer_ids) = res_name b ` set layer_ids"
  by (auto simp: image_iff)

lemma res_layers_eq:
  assumes "\<forall>b i. res_name b i \<notin> fst ` set ms"
  shows "res_layers dflt cfg ms =
    (if even (n_first_filters cfg)
     then Inr \<lparr>cur_dilation = (64, 1), n_cur_filters = 3 * n_first_filters cfg, i_block = 7,
               mods = ms @ map (\<lambda>(name, n_in, n_out, dil). (name, mk_block dflt n_in n_out dil))
                             (block_calls cfg)\<rparr>
     else Inl need_even)"
proof -
  define n where "n = n_first_filters cfg"
  define layers where "layers = n_layers_per_block cfg"
  define ms1 where "ms1 = ms @ map (\<lambda>i. (res_name 1 i, mk_block dflt n n (1, 1))) [0..<nat layers]"
  define s1 where "s1 = \<lparr>cur_dilation = (1, 1), n_cur_filters = n, i_block = 1, mods = ms1\<rparr>"
  have b1: "add_layers dflt 1 n (1, 1) [0..<nat layers] ms = Inr ms1"
    unfolding ms1_def by (rule add_layers_fresh) (use assms in simp_all)
  have start: "res_layers dflt cfg ms =
      bind_err (next_block dflt layers (\<lambda>n. 2 * n) s1) (\<lambda>s2.
      bind_err (next_block dflt layers (\<lambda>n. py_int (1.5 * real_of_int n)) s2) (\<lambda>s3.
      bind_err (next_block dflt layers (\<lambda>n. n) s3) (\<lambda>s4.
      bind_err (next_block dflt layers (\<lambda>n. n) s4) (\<lambda>s5.
      bind_err (next_block dflt layers (\<lambda>n. n) s5) (\<lambda>s6.
      next_block dflt layers (\<lambda>n. n) s6)))))"
    using b1 by (simp add: res_layers_def Let_def n_def layers_def s1_def)
  have sel1: "cur_dilation s1 = (1, 1)" "n_cur_filters s1 = n" "i_block s1 = 1" "mods s1 = ms1"
    by (simp_all add: s1_def)
  have f1: "\<forall>i. res_name (i_block s1 + 1) i \<notin> fst ` set (mods s1)"
    using assms by (simp add: s1_def ms1_def image_Un image_image)
  show ?thesis
  proof (cases "even n")
    case False
    then have "next_block dflt layers (\<lambda>n. 2 * n) s1 = Inl need_even"
      by (simp add: next_block_fresh [OF f1] sel1)
    with False show ?thesis by (simp only: start bind_err_simps n_def if_False)
  next
    case True
    define s2 where "s2 = \<lparr>cur_dilation = (2, 1), n_cur_filters = 2 * n, i_block = 2,
      mods = mods s1 @ (res_name 2 0, mk_block dflt n (2 * n) (2, 1))
        # map (\<lambda>i. (res_name 2 i, mk_block dflt (2 * n) (2 * n) (2, 1))) [1..<nat layers]\<rparr>"
    have sel2: "cur_dilation s2 = (2, 1)" "n_cur_filters s2 = 2 * n" "i_block s2 = 2"
      by (simp_all add: s2_def)
    have n2: "next_block dflt layers (\<lambda>n. 2 * n) s1 = Inr s2"
      using True by (simp add: next_block_fresh [OF f1] sel1 s2_def)
    have f2: "\<forall>i. res_name (i_block s2 + 1) i \<notin> fst ` set (mods s2)"
      using assms by (simp add: s2_def s1_def ms1_def image_Un image_image)
    define s3 where "s3 = \<lparr>cur_dilation = (4, 1), n_cur_filters = 3 * n, i_block = 3,
      mods = mods s2 @ (res_name 3 0, mk_block dflt (2 * n) (3 * n) (4, 1))
        # map (\<lambda>i. (res_name 3 i, mk_block dflt (3 * n) (3 * n) (4, 1))) [1..<nat layers]\<rparr>"
    have sel3: "cur_dilation s3 = (4, 1)" "n_cur_filters s3 = 3 * n" "i_block s3 = 3"
      by (simp_all add: s3_def)
    have n3: "next_block dflt layers (\<lambda>n. py_int (1.5 * real_of_int n)) s2 = Inr s3"
      using True by (simp add: next_block_fresh [OF f2] sel2 s3_def py_int_grow py_int_triple)
    have f3: "\<forall>i. res_name (i_block s3 + 1) i \<notin> fst ` set (mods s3)"
      using assms by (simp add: s3_def s2_def s1_def ms1_def image_Un image_image)
    define s4 where "s4 = \<lparr>cur_dilation = (8, 1), n_cur_filters = 3 * n, i_block = 4,
      mods = mods s3 @ (res_name 4 0, mk_block dflt (3 * n) (3 * n) (8, 1))
        # map (\<lambda>i. (res_name 4 i, mk_block dflt (3 * n) (3 * n) (8, 1))) [1..<nat layers]\<rparr>"
    have sel4: "cur_dilation s4 = (8, 1)" "n_cur_filters s4 = 3 * n" "i_block s4 = 4"
      by (simp_all add: s4_def)
    have n4: "next_block dflt layers (\<lambda>n. n) s3 = Inr s4"
      by (simp add: next_block_fresh [OF f3] sel3 s4_def)
    have f4: "\<forall>i. res_name (i_block s4 + 1) i \<notin> fst ` set (mods s4)"
      using assms by (simp add: s4_def s3_def s2_def s1_def ms1_def image_Un image_image)
    define s5 where "s5 = \<lparr>cur_dilation = (16, 1), n_cur_filters = 3 * n, i_block = 5,
      mods = mods s4 @ (res_name 5 0, mk_block dflt (3 * n) (3 * n) (16, 1))
        # map (\<lambda>i. (res_name 5 i, mk_block dflt (3 * n) (3 * n) (16, 1))) [1..<nat layers]\<rparr>"
    have sel5: "cur_dilation s5 = (16, 1)" "n_cur_filters s5 = 3 * n" "i_block s5 = 5"
      by (simp_all add: s5_def)
    have n5: "next_block dflt layers (\<lambda>n. n) s4 = Inr s5"
      by (simp add: next_block_fresh [OF f4] sel4 s5_def)
    have f5: "\<forall>i. res_name (i_block s5 + 1) i \<notin> fst ` set (mods s5)"
      using assms by (simp add: s5_def s4_def s3_def s2_def s1_def ms1_def image_Un image_image)
    define s6 where "s6 = \<lparr>cur_dilation = (32, 1), n_cur_filters = 3 * n, i_block = 6,
      mods = mods s5 @ (res_name 6 0, mk_block dflt (3 * n) (3 * n) (32, 1))
        # map (\<lambda>i. (res_name 6 i, mk_block dflt (3 * n) (3 * n) (32, 1))) [1..<nat layers]\<rparr>"
    have sel6: "cur_dilation s6 = (32, 1)" "n_cur_filters s6 = 3 * n" "i_block s6 = 6"
      by (simp_all add: s6_def)
    have n6: "next_block dflt layers (\<lambda>n. n) s5 = Inr s6"
      by (simp add: next_block_fresh [OF f5] sel5 s6_def)
    have f6: "\<forall>i. res_name (i_block s6 + 1) i \<notin> fst ` set (mods s6)"
      using assms by (simp add: s6_def s5_def s4_def s3_def s2_def s1_def ms1_def image_Un image_image)
    define s7 where "s7 = \<lparr>cur_dilation = (64, 1), n_cur_filters = 3 * n, i_block = 7,
      mods = mods s6 @ (res_name 7 0, mk_block dflt (3 * n) (3 * n) (64, 1))
        # map (\<lambda>i. (res_name 7 i, mk_block dflt (3 * n) (3 * n) (64, 1))) [1..<nat layers]\<rparr>"
    have sel7: "cur_dilation s7 = (64, 1)" "n_cur_filters s7 = 3 * n" "i_block s7 = 7"
      by (simp_all add: s7_def)
    have n7: "next_block dflt layers (\<lambda>n. n) s6 = Inr s7"
      by (simp add: next_block_fresh [OF f6] sel6 s7_def)
    have "res_layers dflt cfg ms = Inr s7"
      by (simp only: start n2 n3 n4 n5 n6 n7 bind_err_simps)
    moreover have "mods s7 = ms @ map (\<lambda>(name, n_in, n_out, dil). (name, mk_block dflt n_in n_out dil))
                             (block_calls cfg)"
      by (simp add: s7_def s6_def s5_def s4_def s3_def s2_def s1_def ms1_def block_calls_def
          Let_def py_int_grow py_int_triple n_def layers_def comp_def)
    ultimately show ?thesis
      using True by (simp add: s7_def n_def)
  qed
qed


subsection \<open>The first layers and the last\<close>

lemma first_layers_eq:
  "first_layers dflt cfg =
     (if split_first_layer cfg
      then [(''ensuredims'', Ensure4d),
            (''dimshuffle'', Rearrange ''batch C T 1 -> batch 1 T C''),
            (''conv_time'',
               nn_Conv2d dflt 1 (n_first_filters cfg) (first_filter_length cfg, 1) (1, 1)
                 (first_filter_length cfg div 2, 0) (1, 1) True),
            (''conv_spat'',
               nn_Conv2d dflt (n_first_filters cfg) (n_first_filters cfg) (1, n_chans cfg)
                 (1, 1) (0, 0) (1, 1) False),
            (''bnorm'',
               nn_BatchNorm2d dflt (n_first_filters cfg) (batch_norm_alpha cfg) True (1 / 100000)),
            (''conv_nonlin'', Activation (activation cfg))]
      else [(''ensuredims'', Ensure4d),
            (''conv_time'',
               nn_Conv2d dflt (n_chans cfg) (n_first_filters cfg) (first_filter_length cfg, 1)
                 (1, 1) (first_filter_length cfg div 2, 0) (1, 1) False),
            (''bnorm'',
               nn_BatchNorm2d dflt (n_first_filters cfg) (batch_norm_alpha cfg) True (1 / 100000)),
            (''conv_nonlin'', Activation (activation cfg))])"
  by (simp add: first_layers_def add_module_def Let_def)

lemma first_layers_no_res: "res_name b i \<notin> fst ` set (first_layers dflt cfg)"
  by (simp add: first_layers_eq res_name_def)

lemma block_calls_names:
  "name \<in> fst ` set (block_calls cfg) \<Longrightarrow> \<exists>b i. name = res_name b i"
  by (auto simp: block_calls_def Let_def)

lemma name_not_res:
  assumes "\<forall>b i. name \<noteq> res_name b i"
  shows "name \<notin> fst ` set (map (\<lambda>(name, n_in, n_out, dil). (name, mk_block dflt n_in n_out dil))
                              (block_calls cfg))"
proof
  assume "name \<in> fst ` set (map (\<lambda>(name, n_in, n_out, dil). (name, mk_block dflt n_in n_out dil))
                              (block_calls cfg))"
  then have "name \<in> fst ` set (block_calls cfg)" by (force simp: image_iff)
  with block_calls_names [of name cfg] assms show False by auto
qed

lemma res_layers_first_layers:
  "res_layers dflt cfg (first_layers dflt cfg) =
    (if even (n_first_filters cfg)
     then Inr \<lparr>cur_dilation = (64, 1), n_cur_filters = 3 * n_first_filters cfg, i_block = 7,
               mods = first_layers dflt cfg
                 @ map (\<lambda>(name, n_in, n_out, dil). (name, mk_block dflt n_in n_out dil))
                     (block_calls cfg)\<rparr>
     else Inl need_even)"
  by (rule res_layers_eq) (simp add: first_layers_no_res)

lemma head_eq:
  assumes "cur_dilation st = (64, 1)" and "n_cur_filters st = 3 * n_first_filters cfg"
    and "mods st = first_layers dflt cfg
                 @ map (\<lambda>(name, n_in, n_out, dil). (name, mk_block dflt n_in n_out dil))
                     (block_calls cfg)"
  shows "head dflt cfg st = built_modules dflt cfg"
proof -
  have r1: "\<forall>b i. ''mean_pool'' \<noteq> res_name b i" and r2: "\<forall>b i. ''final_layer'' \<noteq> res_name b i"
    by (simp_all add: res_name_def)
  have m1: "''mean_pool'' \<notin> fst ` set (mods st)"
    using name_not_res [OF r1, of dflt cfg]
    by (simp add: assms(3) image_Un first_layers_eq del: set_map map_map)
  have m2: "''final_layer'' \<notin> fst ` set (mods st @ [(''mean_pool'', p)])" for p
    using name_not_res [OF r2, of dflt cfg]
    by (simp add: assms(3) image_Un first_layers_eq del: set_map map_map)
  show ?thesis
    using m1 m2
    by (simp add: head_def Let_def add_module_fresh assms(1,2) built_modules_def
        split: pool_length.splits)
      (simp add: add_module_def assms(3))
qed

subsection \<open>The constructor as one equation\<close>


lemma activation_name_not_conv [simp]:
  "\<not> py_in ''Conv'' (activation_name a)" "\<not> py_in ''BatchNorm'' (activation_name a)"
  by (cases a; simp)+

lemma initialized_simps:
  "initialized f Ensure4d = Ensure4d"
  "initialized f (Rearrange pat) = Rearrange pat"
  "initialized f (Activation a) = Activation a"
  "initialized f (AdaptiveAvgPool2d sz) = AdaptiveAvgPool2d sz"
  "initialized f (AvgPool2dWithConv k s d) = AvgPool2dWithConv k s d"
  "initialized f SqueezeFinalOutput = SqueezeFinalOutput"
  "initialized f (Conv2d i o' k s p d w b) =
     Conv2d i o' k s p d (f w) (map_option (\<lambda>b. init_constant b 0) b)"
  "initialized f (BatchNorm2d n mom aff e w b) =
     BatchNorm2d n mom aff e (init_constant w 1) (map_option (\<lambda>b. init_constant b 0) b)"
  "initialized f (ResidualBlock pd c1 b1 c2 b2 nl) =
     ResidualBlock pd (initialized f c1) (initialized f b1) (initialized f c2)
       (initialized f b2) (initialized f nl)"
  "initialized f (Sequential kids) =
     Sequential (map (\<lambda>kid. (fst kid, initialized f (snd kid))) kids)"
  by (simp_all add: initialized_def weights_init_def Let_def)

lemma EEGResNet_init_eq:
  "EEGResNet_init dflt cfg =
     (if final_pool_length cfg = Auto \<and> n_times cfg = None then Inl (AssertionError None)
      else if even (first_filter_length cfg) then Inl (AssertionError None)
      else if odd (n_first_filters cfg) then Inl need_even
      else Inr \<lparr>hparams = cfg,
             mapping = [(''conv_classifier.weight'', ''final_layer.conv_classifier.weight''),
                        (''conv_classifier.bias'', ''final_layer.conv_classifier.bias'')],
             modules = map (\<lambda>kid. (fst kid, initialized (conv_weight_init_fn cfg) (snd kid)))
                         (built_modules dflt cfg),
             training = True\<rparr>)"
proof -
  have odd_iff: "first_filter_length cfg mod 2 \<noteq> 1 \<longleftrightarrow> even (first_filter_length cfg)"
    by presburger
  show ?thesis
    unfolding EEGResNet_init_def odd_iff res_layers_first_layers
    by (simp add: head_eq initialized_def)
qed

subsection \<open>The residual units of a constructed network\<close>


lemma initialized_mk_block:
  "initialized f (mk_block dflt n_in n_out dil) =
     ResidualBlock (n_out - n_in)
       (Conv2d n_in n_out (3, 1) (1, 1) (fst dil, 0) dil (f (dflt [n_out, n_in, 3, 1]))
          (Some (init_constant (dflt [n_out]) 0)))
       (BatchNorm2d n_out (1 / 10) True (1 / 10000) (init_constant (dflt [n_out]) 1)
          (Some (init_constant (dflt [n_out]) 0)))
       (Conv2d n_out n_out (3, 1) (1, 1) (fst dil, 0) dil (f (dflt [n_out, n_out, 3, 1]))
          (Some (init_constant (dflt [n_out]) 0)))
       (BatchNorm2d n_out (1 / 10) True (1 / 10000) (init_constant (dflt [n_out]) 1)
          (Some (init_constant (dflt [n_out]) 0)))
       (Activation ELU)"
  by (simp add: mk_block_def initialized_simps nn_Conv2d_def nn_BatchNorm2d_def)

lemma activation_name_not_block [simp]: "activation_name a \<noteq> ''_ResidualBlock''"
  by (cases a) simp_all

lemma filter_all: "(\<And>x. x \<in> set xs \<Longrightarrow> P x) \<Longrightarrow> filter P xs = xs"
  by (induction xs) auto

lemma residual_of_built:
  "filter is_residual
     (map (\<lambda>kid. (fst kid, initialized f (snd kid))) (built_modules dflt cfg))
   = map (\<lambda>(name, n_in, n_out, dil). (name, initialized f (mk_block dflt n_in n_out dil)))
       (block_calls cfg)"
proof -
  have first: "filter is_residual
      (map (\<lambda>kid. (fst kid, initialized f (snd kid))) (first_layers dflt cfg)) = []"
    by (simp add: first_layers_eq is_residual_def initialized_simps nn_Conv2d_def
        nn_BatchNorm2d_def)
  have units: "filter is_residual
      (map (\<lambda>kid. (fst kid, initialized f (snd kid)))
        (map (\<lambda>(name, n_in, n_out, dil). (name, mk_block dflt n_in n_out dil)) (block_calls cfg)))
      = map (\<lambda>(name, n_in, n_out, dil). (name, initialized f (mk_block dflt n_in n_out dil)))
          (block_calls cfg)"
  proof -
    have eq: "map (\<lambda>kid. (fst kid, initialized f (snd kid)))
        (map (\<lambda>(name, n_in, n_out, dil). (name, mk_block dflt n_in n_out dil)) (block_calls cfg))
      = map (\<lambda>(name, n_in, n_out, dil). (name, initialized f (mk_block dflt n_in n_out dil)))
          (block_calls cfg)"
      by (simp add: comp_def case_prod_beta)
    show ?thesis
      unfolding eq
      by (rule filter_all) (auto simp: is_residual_def initialized_mk_block)
  qed
  have last: "filter is_residual
      (map (\<lambda>kid. (fst kid, initialized f (snd kid)))
         [(''mean_pool'',
          (case final_pool_length cfg of
             Auto \<Rightarrow> AdaptiveAvgPool2d (1, 1)
           | Length l \<Rightarrow> AvgPool2dWithConv (l, 1) (1, 1) (64, 1))),
        (''final_layer'',
          Sequential
            [(''conv_classifier'',
               nn_Conv2d dflt (3 * n_first_filters cfg) (n_outputs cfg) (1, 1) (1, 1) (0, 0)
                 (1, 1) True),
             (''squeeze'', SqueezeFinalOutput)])]) = []"
    by (simp add: is_residual_def initialized_simps split: pool_length.splits)
  show ?thesis
    unfolding built_modules_def map_append filter_append first units last by simp
qed

lemma EEGResNet_init_Inr:
  assumes "EEGResNet_init dflt cfg = Inr net"
  shows "\<not> (final_pool_length cfg = Auto \<and> n_times cfg = None)"
    and "odd (first_filter_length cfg)" and "even (n_first_filters cfg)"
    and "modules net = map (\<lambda>kid. (fst kid, initialized (conv_weight_init_fn cfg) (snd kid)))
                         (built_modules dflt cfg)"
    and "hparams net = cfg" and "training net"
  using assms by (auto simp: EEGResNet_init_eq split: if_splits)

lemma residual_units_eq:
  assumes "EEGResNet_init dflt cfg = Inr net"
  shows "residual_units net = map (\<lambda>(name, n_in, n_out, dil). (name, n_in, n_out)) (block_calls cfg)"
  unfolding residual_units_def EEGResNet_init_Inr(4) [OF assms] residual_of_built
  by (simp add: comp_def case_prod_beta initialized_mk_block)

lemma residual_dilations_eq:
  assumes "EEGResNet_init dflt cfg = Inr net"
  shows "residual_dilations net = map (\<lambda>(name, n_in, n_out, dil). (name, dil, dil)) (block_calls cfg)"
  unfolding residual_dilations_def EEGResNet_init_Inr(4) [OF assms] residual_of_built
  by (simp add: comp_def case_prod_beta initialized_mk_block)


subsection \<open>The example configuration\<close>


lemma example_config_accepted:
  "EEGResNet_init example_dflt example_config = Inr example_net"
  by (simp add: EEGResNet_init_eq example_net_def) (simp add: example_config_def)

lemma format_d_digit: "n < 10 \<Longrightarrow> format_d n = [digit_char n]"
  by (simp add: format_d.simps [of n])

lemmas res_name_eval = res_name_def format_d_digit digit_char_def

lemma upt_examples: "[0..<2] = [0, Suc 0]" "[Suc 0..<2] = [Suc 0]"
  by (simp_all add: upt_rec)


subsection \<open>Looking up a child by its name\<close>

lemma map_of_initialized:
  "map_of (map (\<lambda>kid. (fst kid, g (snd kid))) xs) name = map_option g (map_of xs name)"
  by (induction xs) auto

lemma map_of_skip: "name \<notin> fst ` set xs \<Longrightarrow> map_of (xs @ ys) name = map_of ys name"
  by (induction xs) auto

lemma map_of_hit: "map_of xs name = Some v \<Longrightarrow> map_of (xs @ ys) name = Some v"
  by (induction xs) auto

lemma lookup_first_layers:
  assumes "EEGResNet_init dflt cfg = Inr net"
    and "map_of (first_layers dflt cfg) name = Some m"
  shows "map_of (modules net) name = Some (initialized (conv_weight_init_fn cfg) m)"
  unfolding EEGResNet_init_Inr(4) [OF assms(1)] map_of_initialized built_modules_def
  by (simp only: map_of_hit [OF assms(2)] option.map)

lemma lookup_mean_pool:
  assumes "EEGResNet_init dflt cfg = Inr net"
  shows "map_of (modules net) ''mean_pool'' =
     Some (case final_pool_length cfg of
             Auto \<Rightarrow> AdaptiveAvgPool2d (1, 1)
           | Length l \<Rightarrow> AvgPool2dWithConv (l, 1) (1, 1) (64, 1))"
proof -
  have r: "\<forall>b i. ''mean_pool'' \<noteq> res_name b i"
    by (simp add: res_name_def)
  have a: "''mean_pool'' \<notin> fst ` set (first_layers dflt cfg)"
    by (simp add: first_layers_eq)
  show ?thesis
    unfolding EEGResNet_init_Inr(4) [OF assms(1)] map_of_initialized built_modules_def
      map_of_skip [OF a] map_of_skip [OF name_not_res [OF r]]
    by (simp add: initialized_simps split: pool_length.splits)
qed

subsection \<open>Odd channel differences\<close>

lemma odd_delta_iff:
  "(\<exists>(name, n_in, n_out, dil) \<in> set (block_calls cfg). odd (n_out - n_in))
     \<longleftrightarrow> odd (n_first_filters cfg)"
  by (auto simp: block_calls_def Let_def py_int_grow py_int_triple)

subsection \<open>Every module is initialized\<close>

lemma init_constant_values [simp]: "v \<in> set (init_constant t c) \<Longrightarrow> v = c"
  by (auto simp: init_constant_def)

lemma class_tests:
  "py_in ''Conv'' ''Conv2d''" "\<not> py_in ''BatchNorm'' ''Conv2d''"
  "py_in ''BatchNorm'' ''BatchNorm2d''" "\<not> py_in ''Conv'' ''BatchNorm2d''"
  "\<not> py_in ''Conv'' ''Ensure4d''" "\<not> py_in ''BatchNorm'' ''Ensure4d''"
  "\<not> py_in ''Conv'' ''Rearrange''" "\<not> py_in ''BatchNorm'' ''Rearrange''"
  "\<not> py_in ''Conv'' ''_ResidualBlock''" "\<not> py_in ''BatchNorm'' ''_ResidualBlock''"
  "\<not> py_in ''Conv'' ''AdaptiveAvgPool2d''" "\<not> py_in ''BatchNorm'' ''AdaptiveAvgPool2d''"
  "py_in ''Conv'' ''AvgPool2dWithConv''" "\<not> py_in ''BatchNorm'' ''AvgPool2dWithConv''"
  "\<not> py_in ''Conv'' ''Sequential''" "\<not> py_in ''BatchNorm'' ''Sequential''"
  "\<not> py_in ''Conv'' ''SqueezeFinalOutput''" "\<not> py_in ''BatchNorm'' ''SqueezeFinalOutput''"
  by simp_all

lemma initialized_ok_simps:
  "initialized_ok dflt f Ensure4d"
  "initialized_ok dflt f (Rearrange pat)"
  "initialized_ok dflt f (Activation a)"
  "initialized_ok dflt f (AdaptiveAvgPool2d sz)"
  "initialized_ok dflt f (AvgPool2dWithConv k s d)"
  "initialized_ok dflt f SqueezeFinalOutput"
  "initialized_ok dflt f (ResidualBlock pd c1 b1 c2 b2 nl)"
  "initialized_ok dflt f (Sequential kids)"
  "initialized_ok dflt f (Conv2d i o' (kh, kw) s p d (f (dflt [o', i, kh, kw])) None)"
  "initialized_ok dflt f (Conv2d i o' (kh, kw) s p d (f (dflt [o', i, kh, kw]))
     (Some (init_constant t 0)))"
  "initialized_ok dflt f (BatchNorm2d n mom aff e (init_constant t 1) (Some (init_constant t' 0)))"
  by (simp_all add: initialized_ok_def class_tests del: py_in.simps)

lemma ok_first_layers:
  assumes "kid \<in> set (first_layers dflt cfg)" and "m \<in> set (all_modules (initialized f (snd kid)))"
  shows "initialized_ok dflt f m"
proof (cases "split_first_layer cfg")
  case True
  with assms show ?thesis
    by (auto simp: first_layers_eq initialized_simps nn_Conv2d_def nn_BatchNorm2d_def
        initialized_ok_simps)
next
  case False
  with assms show ?thesis
    by (auto simp: first_layers_eq initialized_simps nn_Conv2d_def nn_BatchNorm2d_def
        initialized_ok_simps)
qed

lemma ok_unit:
  assumes "m \<in> set (all_modules (initialized f (mk_block dflt n_in n_out dil)))"
  shows "initialized_ok dflt f m"
  using assms by (auto simp: initialized_mk_block initialized_ok_simps)

lemma ok_units:
  assumes "kid \<in> set (map (\<lambda>(name, n_in, n_out, dil). (name, mk_block dflt n_in n_out dil))
                       (block_calls cfg))"
    and "m \<in> set (all_modules (initialized f (snd kid)))"
  shows "initialized_ok dflt f m"
proof -
  from assms(1) obtain n_in n_out dil where "snd kid = mk_block dflt n_in n_out dil"
    by auto
  with assms(2) show ?thesis by (simp add: ok_unit)
qed

lemma ok_head:
  assumes "kid \<in> set [(''mean_pool'',
          (case final_pool_length cfg of
             Auto \<Rightarrow> AdaptiveAvgPool2d (1, 1)
           | Length l \<Rightarrow> AvgPool2dWithConv (l, 1) (1, 1) (64, 1))),
        (''final_layer'',
          Sequential
            [(''conv_classifier'',
               nn_Conv2d dflt (3 * n_first_filters cfg) (n_outputs cfg) (1, 1) (1, 1) (0, 0)
                 (1, 1) True),
             (''squeeze'', SqueezeFinalOutput)])]"
    and "m \<in> set (all_modules (initialized f (snd kid)))"
  shows "initialized_ok dflt f m"
  using assms
  by (auto simp: initialized_simps nn_Conv2d_def initialized_ok_simps split: pool_length.splits)

lemma ok_built:
  assumes "kid \<in> set (built_modules dflt cfg)"
    and "m \<in> set (all_modules (initialized f (snd kid)))"
  shows "initialized_ok dflt f m"
proof -
  from assms(1) consider
      (first) "kid \<in> set (first_layers dflt cfg)"
    | (units) "kid \<in> set (map (\<lambda>(name, n_in, n_out, dil). (name, mk_block dflt n_in n_out dil))
                       (block_calls cfg))"
    | (last) "kid \<in> set [(''mean_pool'',
          (case final_pool_length cfg of
             Auto \<Rightarrow> AdaptiveAvgPool2d (1, 1)
           | Length l \<Rightarrow> AvgPool2dWithConv (l, 1) (1, 1) (64, 1))),
        (''final_layer'',
          Sequential
            [(''conv_classifier'',
               nn_Conv2d dflt (3 * n_first_filters cfg) (n_outputs cfg) (1, 1) (1, 1) (0, 0)
                 (1, 1) True),
             (''squeeze'', SqueezeFinalOutput)])]"
    unfolding built_modules_def set_append Un_iff by blast
  then show ?thesis
  proof cases
    case first
    then show ?thesis using assms(2) by (rule ok_first_layers)
  next
    case units
    then show ?thesis using assms(2) by (rule ok_units)
  next
    case last
    then show ?thesis using assms(2) by (rule ok_head)
  qed
qed

lemma net_modules_ok:
  assumes "EEGResNet_init dflt cfg = Inr net" and "m \<in> set (net_modules net)"
  shows "initialized_ok dflt (conv_weight_init_fn cfg) m"
proof -
  from assms(2) obtain kid where "kid \<in> set (built_modules dflt cfg)"
    and "m \<in> set (all_modules (initialized (conv_weight_init_fn cfg) (snd kid)))"
    unfolding net_modules_def EEGResNet_init_Inr(4) [OF assms(1)] by auto
  then show ?thesis by (rule ok_built)
qed

lemma example_bnorm_member:
  "BatchNorm2d 20 (1 / 10) True (1 / 100000) (replicate 20 1) (Some (replicate 20 0))
     \<in> set (net_modules example_net)"
  by (simp add: net_modules_def example_net_def built_modules_def first_layers_eq
      example_config_def initialized_simps nn_BatchNorm2d_def nn_Conv2d_def example_dflt_def
      init_constant_def)

lemma example_conv_time_member:
  "Conv2d 1 20 (3, 1) (1, 1) (1, 0) (1, 1) (replicate 60 (1 / 8)) (Some (replicate 20 0))
     \<in> set (net_modules example_net)"
  by (simp add: net_modules_def example_net_def built_modules_def first_layers_eq
      example_config_def initialized_simps nn_BatchNorm2d_def nn_Conv2d_def example_dflt_def
      init_constant_def)

subsection \<open>Arguments that do not reach a layer\<close>

lemma built_modules_epsilon [simp]:
  "built_modules dflt (cfg\<lparr>batch_norm_epsilon := e\<rparr>) = built_modules dflt cfg"
  by (simp add: built_modules_def first_layers_eq block_calls_def cong: if_cong)

lemma lookup_bnorm:
  assumes "EEGResNet_init dflt cfg = Inr net"
  shows "map_of (modules net) ''bnorm'' =
     Some (BatchNorm2d (n_first_filters cfg) (batch_norm_alpha cfg) True (1 / 100000)
             (init_constant (dflt [n_first_filters cfg]) 1)
             (Some (init_constant (dflt [n_first_filters cfg]) 0)))"
proof -
  have "map_of (first_layers dflt cfg) ''bnorm'' =
      Some (nn_BatchNorm2d dflt (n_first_filters cfg) (batch_norm_alpha cfg) True (1 / 100000))"
    by (simp add: first_layers_eq)
  from lookup_first_layers [OF assms this] show ?thesis
    by (simp add: nn_BatchNorm2d_def initialized_simps)
qed

lemma residual_kid:
  assumes "EEGResNet_init dflt cfg = Inr net" and "kid \<in> set (modules net)"
    and "is_residual kid"
  shows "\<exists>n_in n_out dil.
    snd kid = initialized (conv_weight_init_fn cfg) (mk_block dflt n_in n_out dil)"
proof -
  from assms(2,3) have "kid \<in> set (filter is_residual (modules net))" by simp
  then show ?thesis
    unfolding EEGResNet_init_Inr(4) [OF assms(1)] residual_of_built by fastforce
qed

lemma example_unit_member:
  "(''res_1_0'', initialized (conv_weight_init_fn example_config)
                  (mk_block example_dflt 20 20 (1, 1))) \<in> set (modules example_net)"
proof -
  have "(res_name 1 0, 20, 20, 1, 1) \<in> set (block_calls example_config)"
    by (simp add: block_calls_def Let_def example_config_def upt_rec)
  then have "(res_name 1 0, mk_block example_dflt 20 20 (1, 1))
      \<in> set (built_modules example_dflt example_config)"
    by (force simp: built_modules_def)
  then have "(res_name 1 0, initialized (conv_weight_init_fn example_config)
                  (mk_block example_dflt 20 20 (1, 1))) \<in> set (modules example_net)"
    by (force simp: example_net_def)
  then show ?thesis by (simp add: res_name_eval)
qed

lemma example_unit_residual:
  "is_residual (''res_1_0'', initialized (conv_weight_init_fn example_config)
                  (mk_block example_dflt 20 20 (1, 1)))"
  by (simp add: is_residual_def initialized_mk_block)

lemma built_modules_activation:
  "filter (\<lambda>kid. fst kid \<noteq> ''conv_nonlin'') (built_modules dflt (cfg\<lparr>activation := a\<rparr>))
   = filter (\<lambda>kid. fst kid \<noteq> ''conv_nonlin'') (built_modules dflt cfg)"
  by (simp add: built_modules_def first_layers_eq block_calls_def cong: if_cong)

lemma filter_initialized:
  "filter (\<lambda>kid. fst kid \<noteq> name) (map (\<lambda>kid. (fst kid, g (snd kid))) xs)
   = map (\<lambda>kid. (fst kid, g (snd kid))) (filter (\<lambda>kid. fst kid \<noteq> name) xs)"
  by (induction xs) auto

lemma lookup_conv_nonlin:
  assumes "EEGResNet_init dflt cfg = Inr net"
  shows "map_of (modules net) ''conv_nonlin'' = Some (Activation (activation cfg))"
proof -
  have "map_of (first_layers dflt cfg) ''conv_nonlin'' = Some (Activation (activation cfg))"
    by (simp add: first_layers_eq)
  from lookup_first_layers [OF assms this] show ?thesis
    by (simp add: initialized_simps)
qed

section \<open>Properties of the constructed network\<close>

text \<open>
  C3. For every configuration that the constructor accepts, the residual units in the
  order of the children are: the units of block 1 from \<open>n\<close> to \<open>n\<close> channels with
  \<open>n = n_first_filters\<close>; the first unit of block 2 from \<open>n\<close> to \<open>2 * n\<close>; the first unit
  of block 3 from \<open>2 * n\<close> to \<open>int(1.5 * 2 * n)\<close>, which is \<open>3 * n\<close>; every other unit,
  in blocks 2 and 3 after the first and in blocks 4 to 7, keeps the channel count of
  the unit before it.
\<close>

theorem channel_progression:
  assumes "EEGResNet_init dflt cfg = Inr net"
  shows "residual_units net =
     (let n = n_first_filters cfg;
          n2 = 2 * n;
          n3 = py_int (1.5 * real_of_int (2 * n));
          layers = nat (n_layers_per_block cfg)
      in map (\<lambda>i. (res_name 1 i, n, n)) [0..<layers]
         @ (res_name 2 0, n, n2) # map (\<lambda>i. (res_name 2 i, n2, n2)) [1..<layers]
         @ (res_name 3 0, n2, n3) # map (\<lambda>i. (res_name 3 i, n3, n3)) [1..<layers]
         @ (res_name 4 0, n3, n3) # map (\<lambda>i. (res_name 4 i, n3, n3)) [1..<layers]
         @ (res_name 5 0, n3, n3) # map (\<lambda>i. (res_name 5 i, n3, n3)) [1..<layers]
         @ (res_name 6 0, n3, n3) # map (\<lambda>i. (res_name 6 i, n3, n3)) [1..<layers]
         @ (res_name 7 0, n3, n3) # map (\<lambda>i. (res_name 7 i, n3, n3)) [1..<layers])
     \<and> py_int (1.5 * real_of_int (2 * n_first_filters cfg)) = 3 * n_first_filters cfg"
  unfolding residual_units_eq [OF assms]
  by (simp add: block_calls_def Let_def comp_def py_int_grow py_int_triple)

theorem channel_progression_witness:
  "EEGResNet_init example_dflt example_config = Inr example_net
     \<and> residual_units example_net =
         [(''res_1_0'', 20, 20), (''res_1_1'', 20, 20),
          (''res_2_0'', 20, 40), (''res_2_1'', 40, 40),
          (''res_3_0'', 40, 60), (''res_3_1'', 60, 60),
          (''res_4_0'', 60, 60), (''res_4_1'', 60, 60),
          (''res_5_0'', 60, 60), (''res_5_1'', 60, 60),
          (''res_6_0'', 60, 60), (''res_6_1'', 60, 60),
          (''res_7_0'', 60, 60), (''res_7_1'', 60, 60)]"
proof -
  have cfg: "n_first_filters example_config = 20" "n_layers_per_block example_config = 2"
    by (simp_all add: example_config_def)
  show ?thesis
    using channel_progression [OF example_config_accepted]
    by (simp add: example_config_accepted cfg Let_def upt_examples res_name_eval)
qed

text \<open>
  C4, as the code has it. For every configuration that the constructor accepts, the
  units of block 1 have the temporal dilation 1, and the dilation is doubled at each of
  the six block boundaries: the units of blocks 1 to 7 have the dilations 1, 2, 4, 8,
  16, 32 and 64 (the second component stays 1), in both convolutions. The dilation of
  the last block, 64, is the one the pooling stage gets when the pooling length is
  given. (The claim counts five doublings and a last dilation of 32; the example below
  shows 64.)
\<close>

theorem dilation_progression:
  assumes "EEGResNet_init dflt cfg = Inr net"
  shows "residual_dilations net =
     (let layers = nat (n_layers_per_block cfg)
      in map (\<lambda>i. (res_name 1 i, (1, 1), (1, 1))) [0..<layers]
         @ (res_name 2 0, (2, 1), (2, 1)) # map (\<lambda>i. (res_name 2 i, (2, 1), (2, 1))) [1..<layers]
         @ (res_name 3 0, (4, 1), (4, 1)) # map (\<lambda>i. (res_name 3 i, (4, 1), (4, 1))) [1..<layers]
         @ (res_name 4 0, (8, 1), (8, 1)) # map (\<lambda>i. (res_name 4 i, (8, 1), (8, 1))) [1..<layers]
         @ (res_name 5 0, (16, 1), (16, 1)) # map (\<lambda>i. (res_name 5 i, (16, 1), (16, 1))) [1..<layers]
         @ (res_name 6 0, (32, 1), (32, 1)) # map (\<lambda>i. (res_name 6 i, (32, 1), (32, 1))) [1..<layers]
         @ (res_name 7 0, (64, 1), (64, 1)) # map (\<lambda>i. (res_name 7 i, (64, 1), (64, 1))) [1..<layers])
     \<and> map_of (modules net) ''mean_pool'' =
         Some (case final_pool_length cfg of
                 Auto \<Rightarrow> AdaptiveAvgPool2d (1, 1)
               | Length l \<Rightarrow> AvgPool2dWithConv (l, 1) (1, 1) (64, 1))"
  unfolding residual_dilations_eq [OF assms] lookup_mean_pool [OF assms]
  by (simp add: block_calls_def Let_def comp_def)

theorem dilation_progression_witness:
  "EEGResNet_init example_dflt example_config = Inr example_net
     \<and> residual_dilations example_net =
         [(''res_1_0'', (1, 1), (1, 1)), (''res_1_1'', (1, 1), (1, 1)),
          (''res_2_0'', (2, 1), (2, 1)), (''res_2_1'', (2, 1), (2, 1)),
          (''res_3_0'', (4, 1), (4, 1)), (''res_3_1'', (4, 1), (4, 1)),
          (''res_4_0'', (8, 1), (8, 1)), (''res_4_1'', (8, 1), (8, 1)),
          (''res_5_0'', (16, 1), (16, 1)), (''res_5_1'', (16, 1), (16, 1)),
          (''res_6_0'', (32, 1), (32, 1)), (''res_6_1'', (32, 1), (32, 1)),
          (''res_7_0'', (64, 1), (64, 1)), (''res_7_1'', (64, 1), (64, 1))]
     \<and> map_of (modules example_net) ''mean_pool''
         = Some (AvgPool2dWithConv (10, 1) (1, 1) (64, 1))"
proof -
  have cfg: "final_pool_length example_config = Length 10"
    "n_layers_per_block example_config = 2"
    by (simp_all add: example_config_def)
  show ?thesis
    using dilation_progression [OF example_config_accepted]
    by (simp add: example_config_accepted cfg Let_def upt_examples res_name_eval)
qed

theorem last_block_dilation_counterexample:
  "EEGResNet_init example_dflt example_config = Inr example_net
     \<and> last (residual_dilations example_net) = (''res_7_1'', (64, 1), (64, 1))
     \<and> fst (fst (snd (last (residual_dilations example_net)))) \<noteq> 32
     \<and> map_of (modules example_net) ''mean_pool''
         = Some (AvgPool2dWithConv (10, 1) (1, 1) (64, 1))"
proof -
  have cfg: "final_pool_length example_config = Length 10"
    "n_layers_per_block example_config = 2"
    by (simp_all add: example_config_def)
  show ?thesis
    using residual_dilations_eq [OF example_config_accepted]
      lookup_mean_pool [OF example_config_accepted]
    by (simp add: example_config_accepted cfg block_calls_def Let_def upt_examples
        res_name_eval)
qed

text \<open>
  C7, as the code has it. With \<open>split_first_layer\<close>, the temporal convolution
  \<open>conv_time\<close> has one input channel and \<open>n_first_filters\<close> output channels, the kernel
  \<open>(first_filter_length, 1)\<close> and the temporal padding \<open>first_filter_length // 2\<close>. (The
  claim gives it \<open>n_first_filters\<close> input channels; those are the input channels of
  \<open>conv_spat\<close>. The example below has 1 against 20.)
\<close>

theorem conv_time_shape:
  assumes "EEGResNet_init dflt cfg = Inr net" and "split_first_layer cfg"
  shows "\<exists>m. map_of (modules net) ''conv_time'' = Some m
     \<and> class_name m = ''Conv2d''
     \<and> in_channels m = 1 \<and> out_channels m = n_first_filters cfg
     \<and> kernel_size m = (first_filter_length cfg, 1)
     \<and> padding m = (first_filter_length cfg div 2, 0)"
proof -
  have "map_of (first_layers dflt cfg) ''conv_time'' =
      Some (nn_Conv2d dflt 1 (n_first_filters cfg) (first_filter_length cfg, 1) (1, 1)
                 (first_filter_length cfg div 2, 0) (1, 1) True)"
    using assms(2) by (simp add: first_layers_eq)
  from lookup_first_layers [OF assms(1) this] show ?thesis
    by (simp add: nn_Conv2d_def initialized_simps)
qed

theorem conv_time_shape_witness:
  "EEGResNet_init example_dflt example_config = Inr example_net
   \<and> split_first_layer example_config
   \<and> (\<exists>m. map_of (modules example_net) ''conv_time'' = Some m
        \<and> in_channels m = 1 \<and> out_channels m = 20 \<and> kernel_size m = (3, 1)
        \<and> padding m = (1, 0))"
proof -
  have s: "split_first_layer example_config"
    and cfg: "n_first_filters example_config = 20" "first_filter_length example_config = 3"
    by (simp_all add: example_config_def)
  show ?thesis
    using conv_time_shape [OF example_config_accepted s] example_config_accepted s
    by (auto simp: cfg)
qed

theorem conv_time_in_channels_counterexample:
  "EEGResNet_init example_dflt example_config = Inr example_net
   \<and> split_first_layer example_config
   \<and> map_of (modules example_net) ''conv_time''
       = Some (Conv2d 1 20 (3, 1) (1, 1) (1, 0) (1, 1) (replicate 60 (1 / 8))
                 (Some (replicate 20 0)))
   \<and> in_channels (Conv2d 1 20 (3, 1) (1, 1) (1, 0) (1, 1) (replicate 60 (1 / 8))
                      (Some (replicate 20 0))) = 1
   \<and> n_first_filters example_config = 20"
proof -
  have s: "split_first_layer example_config"
    and cfg: "n_first_filters example_config = 20" "first_filter_length example_config = 3"
      "conv_weight_init_fn example_config = map (\<lambda>v. v / 2)"
    by (simp_all add: example_config_def)
  have "map_of (first_layers example_dflt example_config) ''conv_time'' =
      Some (nn_Conv2d example_dflt 1 20 (3, 1) (1, 1) (1, 0) (1, 1) True)"
    using s by (simp add: first_layers_eq cfg)
  from lookup_first_layers [OF example_config_accepted this] show ?thesis
    using example_config_accepted s
    by (simp add: nn_Conv2d_def initialized_simps cfg example_dflt_def init_constant_def)
qed

text \<open>
  C6. For a configuration with positive sizes (channel counts, output count, first
  filter length and pooling length: the configurations on which the framework's own
  constructors return), the constructor fails with an assertion exactly when the first
  filter length is even, or the pooling length is \<open>auto\<close> while the time length is
  unknown, or one of the residual units it asks for has an odd difference between its
  output and input channel counts; and it returns a network exactly when none of the
  three holds. All of this is decided by the constructor, before any forward pass.
  (The other assertion of the block, on the temporal padding, cannot fail here: the
  constructor always builds its blocks with the kernel length 3, see \<open>new_block_eq\<close>.
  With a negative size the framework raises an error of its own in the first layers,
  before any residual unit is asked for; that case is outside the statement.)
\<close>

theorem construction_fails_iff:
  assumes "sizes_positive cfg"
  shows "((\<exists>msg. EEGResNet_init dflt cfg = Inl (AssertionError msg)) \<longleftrightarrow>
      even (first_filter_length cfg)
      \<or> (final_pool_length cfg = Auto \<and> n_times cfg = None)
      \<or> (\<exists>(name, n_in, n_out, dil) \<in> set (block_calls cfg). odd (n_out - n_in)))
   \<and> ((\<exists>net. EEGResNet_init dflt cfg = Inr net) \<longleftrightarrow>
      \<not> (even (first_filter_length cfg)
         \<or> (final_pool_length cfg = Auto \<and> n_times cfg = None)
         \<or> (\<exists>(name, n_in, n_out, dil) \<in> set (block_calls cfg). odd (n_out - n_in))))"
  unfolding odd_delta_iff by (auto simp: EEGResNet_init_eq)

theorem construction_fails_iff_witness:
  "sizes_positive example_config
   \<and> sizes_positive (example_config\<lparr>n_first_filters := 21\<rparr>)
   \<and> sizes_positive (example_config\<lparr>first_filter_length := 4\<rparr>)
   \<and> sizes_positive (example_config\<lparr>final_pool_length := Auto, n_times := None\<rparr>)
   \<and> EEGResNet_init example_dflt (example_config\<lparr>n_first_filters := 21\<rparr>) = Inl need_even
   \<and> (\<exists>msg. EEGResNet_init example_dflt (example_config\<lparr>n_first_filters := 21\<rparr>)
          = Inl (AssertionError msg))
   \<and> (res_name 2 0, 21, 42, 2, 1) \<in> set (block_calls (example_config\<lparr>n_first_filters := 21\<rparr>))
   \<and> (\<exists>msg. EEGResNet_init example_dflt (example_config\<lparr>first_filter_length := 4\<rparr>)
          = Inl (AssertionError msg))
   \<and> (\<exists>msg. EEGResNet_init example_dflt
               (example_config\<lparr>final_pool_length := Auto, n_times := None\<rparr>)
          = Inl (AssertionError msg))
   \<and> EEGResNet_init example_dflt example_config = Inr example_net"
proof -
  have p0: "sizes_positive example_config"
    and p1: "sizes_positive (example_config\<lparr>n_first_filters := 21\<rparr>)"
    and p2: "sizes_positive (example_config\<lparr>first_filter_length := 4\<rparr>)"
    and p3: "sizes_positive (example_config\<lparr>final_pool_length := Auto, n_times := None\<rparr>)"
    by (simp_all add: sizes_positive_def example_config_def)
  have "\<not> (\<exists>(name, n_in, n_out, dil) \<in> set (block_calls example_config). odd (n_out - n_in))"
    unfolding odd_delta_iff by (simp add: example_config_def)
  moreover have "odd (first_filter_length example_config)"
    and "final_pool_length example_config \<noteq> Auto"
    by (simp_all add: example_config_def)
  ultimately have 0: "\<exists>net. EEGResNet_init example_dflt example_config = Inr net"
    using construction_fails_iff [OF p0, of example_dflt] by blast
  have 1: "EEGResNet_init example_dflt (example_config\<lparr>n_first_filters := 21\<rparr>) = Inl need_even"
    by (simp add: EEGResNet_init_eq) (simp add: example_config_def)
  have 2: "(res_name 2 0, 21, 42, 2, 1)
        \<in> set (block_calls (example_config\<lparr>n_first_filters := 21\<rparr>))"
    by (simp add: block_calls_def Let_def)
  then have "\<exists>(name, n_in, n_out, dil) \<in> set (block_calls (example_config\<lparr>n_first_filters := 21\<rparr>)).
      odd (n_out - n_in)"
    by (intro bexI [OF _ 2]) simp
  then have 3: "\<exists>msg. EEGResNet_init example_dflt (example_config\<lparr>n_first_filters := 21\<rparr>)
          = Inl (AssertionError msg)"
    using construction_fails_iff [OF p1, of example_dflt]
    by blast
  have 4: "\<exists>msg. EEGResNet_init example_dflt (example_config\<lparr>first_filter_length := 4\<rparr>)
          = Inl (AssertionError msg)"
    using construction_fails_iff [OF p2, of example_dflt]
    by simp
  have 5: "\<exists>msg. EEGResNet_init example_dflt
               (example_config\<lparr>final_pool_length := Auto, n_times := None\<rparr>)
          = Inl (AssertionError msg)"
    using construction_fails_iff [OF p3, of example_dflt]
    by simp
  from p0 p1 p2 p3 0 1 2 3 4 5 example_config_accepted show ?thesis by blast
qed

text \<open>
  C8. In a network that the constructor returns, for every module below it (the
  children, the layers inside the residual units and inside the final layer): a module
  that \<^verbatim>\<open>_weights_init\<close> takes for a batch normalization (\<open>BatchNorm\<close> in its class name)
  has the scale 1 and the shift 0 everywhere; a module that it takes for a convolution
  (\<open>Conv\<close> in its class name, \<open>AvgPool2dWithConv\<close> excepted) has as weight the result of
  the supplied initializer on the fresh weight of its shape and, if it has a bias, a
  bias that is 0 everywhere.
\<close>

theorem weights_initialized:
  assumes "EEGResNet_init dflt cfg = Inr net"
  shows "\<forall>m \<in> set (net_modules net).
     (py_in ''BatchNorm'' (class_name m) \<longrightarrow>
         (\<forall>v \<in> set (weight m). v = 1) \<and> (\<exists>b. bias m = Some b \<and> (\<forall>v \<in> set b. v = 0)))
      \<and> (py_in ''Conv'' (class_name m) \<and> class_name m \<noteq> ''AvgPool2dWithConv'' \<longrightarrow>
           weight m = conv_weight_init_fn cfg
                        (dflt [out_channels m, in_channels m,
                               fst (kernel_size m), snd (kernel_size m)])
           \<and> (\<forall>b. bias m = Some b \<longrightarrow> (\<forall>v \<in> set b. v = 0)))"
proof
  fix m
  assume "m \<in> set (net_modules net)"
  from net_modules_ok [OF assms this]
  show "(py_in ''BatchNorm'' (class_name m) \<longrightarrow>
         (\<forall>v \<in> set (weight m). v = 1) \<and> (\<exists>b. bias m = Some b \<and> (\<forall>v \<in> set b. v = 0)))
      \<and> (py_in ''Conv'' (class_name m) \<and> class_name m \<noteq> ''AvgPool2dWithConv'' \<longrightarrow>
           weight m = conv_weight_init_fn cfg
                        (dflt [out_channels m, in_channels m,
                               fst (kernel_size m), snd (kernel_size m)])
           \<and> (\<forall>b. bias m = Some b \<longrightarrow> (\<forall>v \<in> set b. v = 0)))"
    unfolding initialized_ok_def .
qed

theorem weights_initialized_witness:
  "EEGResNet_init example_dflt example_config = Inr example_net
   \<and> BatchNorm2d 20 (1 / 10) True (1 / 100000) (replicate 20 1) (Some (replicate 20 0))
       \<in> set (net_modules example_net)
   \<and> Conv2d 1 20 (3, 1) (1, 1) (1, 0) (1, 1) (replicate 60 (1 / 8)) (Some (replicate 20 0))
       \<in> set (net_modules example_net)
   \<and> replicate 60 (1 / 8) = conv_weight_init_fn example_config (example_dflt [20, 1, 3, 1])"
  using weights_initialized [OF example_config_accepted, THEN bspec, OF example_conv_time_member]
    weights_initialized [OF example_config_accepted, THEN bspec, OF example_bnorm_member]
    example_config_accepted example_bnorm_member example_conv_time_member
  by (simp add: class_tests del: py_in.simps)

text \<open>
  C9. The argument \<open>batch_norm_epsilon\<close> does not reach the network. For any two values
  of it, all else equal, the constructor fails in the same way or returns the same
  name table, the same children (every layer with its hyperparameters and its
  parameters) and the same mode; the stored copy of the arguments, \<open>hparams\<close>, is the
  only place where the value shows. In every constructed network the first batch
  normalization \<open>bnorm\<close> has \<open>eps = 1e-5\<close> and both batch normalizations of every
  residual unit have \<open>eps = 1e-4\<close>, the default of the block.
\<close>

theorem batch_norm_epsilon_unused:
  "map_sum id (\<lambda>net. (mapping net, modules net, training net))
       (EEGResNet_init dflt (cfg\<lparr>batch_norm_epsilon := e1\<rparr>))
   = map_sum id (\<lambda>net. (mapping net, modules net, training net))
       (EEGResNet_init dflt (cfg\<lparr>batch_norm_epsilon := e2\<rparr>))
   \<and> (\<forall>net. EEGResNet_init dflt cfg = Inr net \<longrightarrow>
         (\<exists>m. map_of (modules net) ''bnorm'' = Some m \<and> eps m = 1 / 100000)
         \<and> (\<forall>kid \<in> set (modules net). is_residual kid \<longrightarrow>
               eps (bn1 (snd kid)) = 1 / 10000 \<and> eps (bn2 (snd kid)) = 1 / 10000))"
proof (intro conjI allI impI ballI)
  show "map_sum id (\<lambda>net. (mapping net, modules net, training net))
       (EEGResNet_init dflt (cfg\<lparr>batch_norm_epsilon := e1\<rparr>))
   = map_sum id (\<lambda>net. (mapping net, modules net, training net))
       (EEGResNet_init dflt (cfg\<lparr>batch_norm_epsilon := e2\<rparr>))"
    by (simp add: EEGResNet_init_eq)
next
  fix net
  assume acc: "EEGResNet_init dflt cfg = Inr net"
  show "\<exists>m. map_of (modules net) ''bnorm'' = Some m \<and> eps m = 1 / 100000"
    by (simp add: lookup_bnorm [OF acc])
  fix kid
  assume "kid \<in> set (modules net)" and "is_residual kid"
  from residual_kid [OF acc this]
  show "eps (bn1 (snd kid)) = 1 / 10000" and "eps (bn2 (snd kid)) = 1 / 10000"
    by (auto simp: initialized_mk_block)
qed

theorem batch_norm_epsilon_unused_witness:
  "EEGResNet_init example_dflt example_config = Inr example_net
   \<and> map_sum id (\<lambda>net. (mapping net, modules net, training net))
       (EEGResNet_init example_dflt (example_config\<lparr>batch_norm_epsilon := 1 / 2\<rparr>))
      = Inr (mapping example_net, modules example_net, training example_net)
   \<and> (\<exists>m. map_of (modules example_net) ''bnorm'' = Some m \<and> eps m = 1 / 100000)
   \<and> eps (bn1 (initialized (conv_weight_init_fn example_config)
                  (mk_block example_dflt 20 20 (1, 1)))) = 1 / 10000
   \<and> eps (bn2 (initialized (conv_weight_init_fn example_config)
                  (mk_block example_dflt 20 20 (1, 1)))) = 1 / 10000"
proof -
  have e: "example_config\<lparr>batch_norm_epsilon := 1 / 10000\<rparr> = example_config"
    by (simp add: example_config_def)
  have "map_sum id (\<lambda>net. (mapping net, modules net, training net))
       (EEGResNet_init example_dflt (example_config\<lparr>batch_norm_epsilon := 1 / 2\<rparr>))
      = map_sum id (\<lambda>net. (mapping net, modules net, training net))
       (EEGResNet_init example_dflt example_config)"
    using batch_norm_epsilon_unused [where dflt = example_dflt and cfg = example_config
        and ?e1.0 = "1 / 2" and ?e2.0 = "1 / 10000",
        THEN conjunct1]
    unfolding e .
  moreover have "(\<exists>m. map_of (modules example_net) ''bnorm'' = Some m \<and> eps m = 1 / 100000)
         \<and> (\<forall>kid \<in> set (modules example_net). is_residual kid \<longrightarrow>
               eps (bn1 (snd kid)) = 1 / 10000 \<and> eps (bn2 (snd kid)) = 1 / 10000)"
    using batch_norm_epsilon_unused [where dflt = example_dflt and cfg = example_config
        and ?e1.0 = "1 / 2" and ?e2.0 = "1 / 10000",
        THEN conjunct2, THEN spec, THEN mp, OF example_config_accepted] .
  ultimately show ?thesis
    using example_unit_member example_unit_residual example_config_accepted
    by force
qed

text \<open>
  C10. The argument \<open>activation\<close> reaches one module only. For any two activation
  classes, all else equal, the constructor fails in the same way or returns the same
  name table, the same mode and the same children but for the child \<open>conv_nonlin\<close>. In
  every constructed network \<open>conv_nonlin\<close> is an instance of the given class, and the
  nonlinearity of every residual unit is an instance of \<open>ELU\<close>, the default of the block,
  whatever the argument is.
\<close>

theorem activation_reaches_only_conv_nonlin:
  "map_sum id (\<lambda>net. (mapping net, filter (\<lambda>kid. fst kid \<noteq> ''conv_nonlin'') (modules net),
                       training net))
       (EEGResNet_init dflt (cfg\<lparr>activation := a1\<rparr>))
   = map_sum id (\<lambda>net. (mapping net, filter (\<lambda>kid. fst kid \<noteq> ''conv_nonlin'') (modules net),
                         training net))
       (EEGResNet_init dflt (cfg\<lparr>activation := a2\<rparr>))
   \<and> (\<forall>net. EEGResNet_init dflt cfg = Inr net \<longrightarrow>
         map_of (modules net) ''conv_nonlin'' = Some (Activation (activation cfg))
         \<and> (\<forall>kid \<in> set (modules net). is_residual kid \<longrightarrow>
               nonlinearity (snd kid) = Activation ELU))"
proof (intro conjI allI impI ballI)
  show "map_sum id (\<lambda>net. (mapping net, filter (\<lambda>kid. fst kid \<noteq> ''conv_nonlin'') (modules net),
                       training net))
       (EEGResNet_init dflt (cfg\<lparr>activation := a1\<rparr>))
   = map_sum id (\<lambda>net. (mapping net, filter (\<lambda>kid. fst kid \<noteq> ''conv_nonlin'') (modules net),
                         training net))
       (EEGResNet_init dflt (cfg\<lparr>activation := a2\<rparr>))"
    by (simp add: EEGResNet_init_eq filter_initialized built_modules_activation)
next
  fix net
  assume acc: "EEGResNet_init dflt cfg = Inr net"
  show "map_of (modules net) ''conv_nonlin'' = Some (Activation (activation cfg))"
    by (rule lookup_conv_nonlin [OF acc])
  fix kid
  assume "kid \<in> set (modules net)" and "is_residual kid"
  from residual_kid [OF acc this]
  show "nonlinearity (snd kid) = Activation ELU"
    by (auto simp: initialized_mk_block)
qed

theorem activation_reaches_only_conv_nonlin_witness:
  "EEGResNet_init example_dflt example_config = Inr example_net
   \<and> map_sum id (\<lambda>net. (mapping net, filter (\<lambda>kid. fst kid \<noteq> ''conv_nonlin'') (modules net),
                         training net))
       (EEGResNet_init example_dflt (example_config\<lparr>activation := ReLU\<rparr>))
      = Inr (mapping example_net,
             filter (\<lambda>kid. fst kid \<noteq> ''conv_nonlin'') (modules example_net),
             training example_net)
   \<and> map_of (modules example_net) ''conv_nonlin'' = Some (Activation ELU)
   \<and> nonlinearity (initialized (conv_weight_init_fn example_config)
                  (mk_block example_dflt 20 20 (1, 1))) = Activation ELU"
proof -
  have e: "example_config\<lparr>activation := ELU\<rparr> = example_config"
    and a: "activation example_config = ELU"
    by (simp_all add: example_config_def)
  have 1: "map_sum id (\<lambda>net. (mapping net, filter (\<lambda>kid. fst kid \<noteq> ''conv_nonlin'') (modules net),
                         training net))
       (EEGResNet_init example_dflt (example_config\<lparr>activation := ReLU\<rparr>))
      = map_sum id (\<lambda>net. (mapping net, filter (\<lambda>kid. fst kid \<noteq> ''conv_nonlin'') (modules net),
                         training net))
       (EEGResNet_init example_dflt example_config)"
    using activation_reaches_only_conv_nonlin [where dflt = example_dflt and cfg = example_config
        and ?a1.0 = ReLU and ?a2.0 = ELU, THEN conjunct1]
    unfolding e .
  have 2: "map_of (modules example_net) ''conv_nonlin'' = Some (Activation (activation example_config))
         \<and> (\<forall>kid \<in> set (modules example_net). is_residual kid \<longrightarrow>
               nonlinearity (snd kid) = Activation ELU)"
    using activation_reaches_only_conv_nonlin [where dflt = example_dflt and cfg = example_config
        and ?a1.0 = ReLU and ?a2.0 = ELU, THEN conjunct2, THEN spec, THEN mp,
        OF example_config_accepted] .
  from 1 2 show ?thesis
    using example_unit_member example_unit_residual example_config_accepted
    by (force simp: a)
qed

end
